theory Spec2Isabelle
  imports Main "HOL-Library.Extended_Nat" "HOL-Library.Word"
begin

section \<open>Stored documents\<close>

text \<open>
  The bot keeps its state in MongoDB collections. A collection is modelled as the list
  of its documents in the order a \<^verbatim>\<open>find()\<close> without sort returns them
  (\<^verbatim>\<open>insertOne\<close> appends). Dates are milliseconds since the epoch. The media
  type is one of the strings \<^verbatim>\<open>'photo'\<close>, \<^verbatim>\<open>'video'\<close>, \<^verbatim>\<open>'document'\<close>
  and \<^verbatim>\<open>'text'\<close>.
\<close>

datatype mediaType = Photo | Video | Document | Text

type_synonym bytes = "8 word list"

record user_doc =
  userId :: int
  username :: string

record event_doc = user_doc +
  timestamp :: int

record msg_doc = event_doc +
  chatId :: int

text \<open>A document of the \<^verbatim>\<open>media\<close> collection (src/bot.js, lines 398-406): the fingerprint record.\<close>

record media_doc = msg_doc +
  hash :: string
  originalMessageId :: int
  mediaType :: mediaType

text \<open>
  A document of the \<^verbatim>\<open>userStats\<close> collection. \<^verbatim>\<open>updateUserStatistics\<close> inserts
  it with every field (src/bot.js, lines 195-206); the upsert of \<^verbatim>\<open>trackDuplicate\<close>
  (lines 215-222) inserts one that has \<^verbatim>\<open>userId\<close>, \<^verbatim>\<open>duplicatesPosted\<close>,
  \<^verbatim>\<open>username\<close> and \<^verbatim>\<open>lastActive\<close> only, so a counter is \<open>None\<close> where the
  field is absent.
\<close>

record userStats_doc = user_doc +
  photoCount :: "nat option"
  videoCount :: "nat option"
  documentCount :: "nat option"
  textCount :: "nat option"
  duplicatesPosted :: "nat option"
  totalMessages :: "nat option"
  firstSeen :: "int option"
  lastActive :: int

text \<open>The database of src/bot.js: the three collections \<^verbatim>\<open>connectToDatabase\<close> creates.\<close>

record db =
  media :: "media_doc list"
  userStats :: "userStats_doc list"
  duplicateTracking :: "event_doc list"

definition empty_db :: db where
  "empty_db = \<lparr>media = [], userStats = [], duplicateTracking = []\<rparr>"

section \<open>Distance between two hashes\<close>

text \<open>
  \<^verbatim>\<open>calculateHashDistance\<close> (src/bot.js, lines 111-123). An argument that is
  \<^verbatim>\<open>undefined\<close> or \<^verbatim>\<open>null\<close> is \<open>None\<close>; the empty string is falsy as well.
  \<^verbatim>\<open>Infinity\<close> is \<open>\<infinity>\<close>. The loop walks both strings position by position.
\<close>

fun count_differing :: "string \<Rightarrow> string \<Rightarrow> nat \<Rightarrow> nat" where
  "count_differing (a # as) (b # bs) distance =
     count_differing as bs (if a \<noteq> b then distance + 1 else distance)"
| "count_differing _ _ distance = distance"

definition calculateHashDistance :: "string option \<Rightarrow> string option \<Rightarrow> enat" where
  "calculateHashDistance hash1 hash2 =
     (case (hash1, hash2) of
        (Some h1, Some h2) \<Rightarrow>
          if h1 = [] \<or> h2 = [] \<or> length h1 \<noteq> length h2 then \<infinity>
          else enat (count_differing h1 h2 0)
      | _ \<Rightarrow> \<infinity>)"

section \<open>Looking for similar media\<close>

text \<open>
  \<^verbatim>\<open>findSimilarMedia\<close> (src/bot.js, lines 126-152), with the \<^verbatim>\<open>media\<close>
  collection as an argument. For a type other than photo and document it is
  \<^verbatim>\<open>findOne({ hash })\<close>: the first document of the collection with that hash.
  Otherwise the loop runs over the documents whose type is photo or document, keeping
  \<^verbatim>\<open>mostSimilar\<close> and \<^verbatim>\<open>lowestDistance\<close>.
\<close>

definition is_perceptual :: "mediaType \<Rightarrow> bool" where
  "is_perceptual t = (t = Photo \<or> t = Document)"

definition similarityThreshold_default :: nat where
  "similarityThreshold_default = 5"

definition hash_distance :: "string \<Rightarrow> media_doc \<Rightarrow> enat" where
  "hash_distance h m = calculateHashDistance (Some h) (Some (hash m))"

fun scan_media :: "string \<Rightarrow> nat \<Rightarrow> media_doc list \<Rightarrow> media_doc option \<Rightarrow> enat \<Rightarrow> media_doc option" where
  "scan_media h similarityThreshold [] mostSimilar lowestDistance = mostSimilar"
| "scan_media h similarityThreshold (m # allMedia) mostSimilar lowestDistance =
     (let distance = hash_distance h m in
      if distance \<le> enat similarityThreshold \<and> distance < lowestDistance
      then scan_media h similarityThreshold allMedia (Some m) distance
      else scan_media h similarityThreshold allMedia mostSimilar lowestDistance)"

definition findSimilarMedia :: "media_doc list \<Rightarrow> string \<Rightarrow> mediaType \<Rightarrow> nat \<Rightarrow> media_doc option" where
  "findSimilarMedia coll h mt similarityThreshold =
     (if \<not> is_perceptual mt then find (\<lambda>m. hash m = h) coll
      else scan_media h similarityThreshold
             (filter (\<lambda>m. is_perceptual (mediaType m)) coll)
             None (enat similarityThreshold + 1))"

section \<open>Hashing a media buffer\<close>

text \<open>
  \<^verbatim>\<open>hashMedia\<close> (src/bot.js, lines 45-75). The two library calls are parameters:
  \<open>imageHash\<close> is \<^verbatim>\<open>imageHash.imageHash(media, 16, true, callback)\<close>, \<open>None\<close> when
  the callback gets an error or the call throws; \<open>cryptoHash\<close> is the SHA-256 digest of
  the buffer in hexadecimal. The promise resolves on every path.
\<close>

definition hashMedia ::
  "(bytes \<Rightarrow> string option) \<Rightarrow> (bytes \<Rightarrow> string) \<Rightarrow> bytes \<Rightarrow> mediaType \<Rightarrow> string" where
  "hashMedia imageHash cryptoHash mediaBuffer mt =
     (if mt = Photo \<or> mt = Document then
        (case imageHash mediaBuffer of
           None \<Rightarrow> cryptoHash mediaBuffer
         | Some h \<Rightarrow> h)
      else cryptoHash mediaBuffer)"

section \<open>User statistics\<close>

text \<open>
  \<^verbatim>\<open>findOne\<close> is \<^const>\<open>find\<close>; \<^verbatim>\<open>updateOne\<close> changes the first document that
  matches; \<^verbatim>\<open>$inc\<close> by one sets an absent field to one.
\<close>

fun updateOne :: "('a \<Rightarrow> bool) \<Rightarrow> ('a \<Rightarrow> 'a) \<Rightarrow> 'a list \<Rightarrow> 'a list" where
  "updateOne p f [] = []"
| "updateOne p f (x # xs) = (if p x then f x # xs else x # updateOne p f xs)"

definition inc :: "nat option \<Rightarrow> nat option" where
  "inc c = (case c of None \<Rightarrow> Some 1 | Some n \<Rightarrow> Some (n + 1))"

definition inc_count :: "mediaType \<Rightarrow> userStats_doc \<Rightarrow> userStats_doc" where
  "inc_count mt d =
     (case mt of
        Photo \<Rightarrow> d\<lparr>photoCount := inc (photoCount d)\<rparr>
      | Video \<Rightarrow> d\<lparr>videoCount := inc (videoCount d)\<rparr>
      | Document \<Rightarrow> d\<lparr>documentCount := inc (documentCount d)\<rparr>
      | Text \<Rightarrow> d\<lparr>textCount := inc (textCount d)\<rparr>)"

text \<open>\<^verbatim>\<open>updateUserStatistics\<close> (src/bot.js, lines 174-208).\<close>

definition updateUserStatistics :: "db \<Rightarrow> int \<Rightarrow> string \<Rightarrow> mediaType \<Rightarrow> int \<Rightarrow> db" where
  "updateUserStatistics s uid uname mt date =
     (case find (\<lambda>d. userId d = uid) (userStats s) of
        Some _ \<Rightarrow>
          s\<lparr>userStats := updateOne (\<lambda>d. userId d = uid)
              (\<lambda>d. (inc_count mt d)\<lparr>totalMessages := inc (totalMessages (inc_count mt d)),
                                      username := uname, lastActive := date\<rparr>)
              (userStats s)\<rparr>
      | None \<Rightarrow>
          s\<lparr>userStats := userStats s @
              [\<lparr>userId = uid, username = uname,
                photoCount = Some (if mt = Photo then 1 else 0),
                videoCount = Some (if mt = Video then 1 else 0),
                documentCount = Some (if mt = Document then 1 else 0),
                textCount = Some (if mt = Text then 1 else 0),
                duplicatesPosted = Some 0,
                totalMessages = Some 1,
                firstSeen = Some date,
                lastActive = date\<rparr>]\<rparr>)"

text \<open>\<^verbatim>\<open>trackDuplicate\<close> (src/bot.js, lines 211-230); the update is an upsert.\<close>

definition trackDuplicate :: "db \<Rightarrow> int \<Rightarrow> string \<Rightarrow> int \<Rightarrow> db" where
  "trackDuplicate s uid uname date =
     (let stats =
        (case find (\<lambda>d. userId d = uid) (userStats s) of
           Some _ \<Rightarrow>
             updateOne (\<lambda>d. userId d = uid)
               (\<lambda>d. d\<lparr>duplicatesPosted := inc (duplicatesPosted d),
                       username := uname, lastActive := date\<rparr>)
               (userStats s)
         | None \<Rightarrow>
             userStats s @
               [\<lparr>userId = uid, username = uname,
                 photoCount = None, videoCount = None, documentCount = None,
                 textCount = None,
                 duplicatesPosted = Some 1,
                 totalMessages = None,
                 firstSeen = None,
                 lastActive = date\<rparr>])
      in s\<lparr>userStats := stats,
            duplicateTracking := duplicateTracking s @
              [\<lparr>userId = uid, username = uname, timestamp = date\<rparr>]\<rparr>)"

section \<open>The statistics message\<close>

text \<open>
  \<^verbatim>\<open>generateWeeklyStats\<close> of src/bot.js (lines 233-277) reads the whole
  \<^verbatim>\<open>userStats\<close> collection. The message is text; the model keeps the values the text
  is made of: the lines under "Top Contributors", the four totals of the media breakdown
  and the lines under "Duplicate Offenders" (none of them: the message says that no
  duplicates were posted this week). A name is \<^verbatim>\<open>user.username || user.userId\<close>.

  \<^verbatim>\<open>Array.prototype.sort\<close> is stable: under a comparator that is consistent in the
  sense of ECMAScript its result is the one of \<open>js_sort\<close>, the stable insertion sort, a
  negative result of the comparator putting the first argument first. A difference with
  an absent operand is \<^verbatim>\<open>NaN\<close>, which sort reads as 0: a document without the field
  is equal to every other, and the comparator is consistent only if every document has
  the field or the documents that have it all have the same value. Otherwise the order
  is left to the engine: \<open>generateWeeklyStats\<close> is \<open>None\<close> there, the message being
  one the model does not determine. The duplicate offenders all have the field.
\<close>

datatype display = At string | Name string | UserId int

definition display_name :: "string \<Rightarrow> int \<Rightarrow> display" where
  "display_name uname uid = (if uname \<noteq> [] then Name uname else UserId uid)"

fun js_insert :: "('a \<Rightarrow> 'a \<Rightarrow> int) \<Rightarrow> 'a \<Rightarrow> 'a list \<Rightarrow> 'a list" where
  "js_insert cmp x [] = [x]"
| "js_insert cmp x (y # ys) = (if cmp x y \<le> 0 then x # y # ys else y # js_insert cmp x ys)"

definition js_sort :: "('a \<Rightarrow> 'a \<Rightarrow> int) \<Rightarrow> 'a list \<Rightarrow> 'a list" where
  "js_sort cmp xs = foldr (js_insert cmp) xs []"

definition descending :: "('a \<Rightarrow> nat option) \<Rightarrow> 'a \<Rightarrow> 'a \<Rightarrow> int" where
  "descending field a b =
     (case (field b, field a) of
        (Some y, Some x) \<Rightarrow> int y - int x
      | _ \<Rightarrow> 0)"

definition or_zero :: "nat option \<Rightarrow> nat" where
  "or_zero c = (case c of None \<Rightarrow> 0 | Some n \<Rightarrow> n)"

record report =
  topContributors :: "(display \<times> nat option) list"
  totalPhotos :: nat
  totalVideos :: nat
  totalDocs :: nat
  totalTexts :: nat
  duplicateOffenders :: "(display \<times> nat option) list"

definition comparator_consistent :: "('a \<Rightarrow> nat option) \<Rightarrow> 'a list \<Rightarrow> bool" where
  "comparator_consistent field xs =
     (list_all (\<lambda>x. field x \<noteq> None) xs \<or>
      length (remdups (filter (\<lambda>v. v \<noteq> None) (map field xs))) \<le> 1)"

definition generateWeeklyStats :: "db \<Rightarrow> report option" where
  "generateWeeklyStats s =
     (if \<not> comparator_consistent totalMessages (userStats s) then None
      else
        let stats = js_sort (descending totalMessages) (userStats s);
            offenders =
              js_sort (descending duplicatesPosted)
                (filter (\<lambda>user. case duplicatesPosted user of None \<Rightarrow> False | Some n \<Rightarrow> n > 0)
                   stats)
        in Some
          \<lparr>topContributors =
             map (\<lambda>user. (display_name (username user) (userId user), totalMessages user))
               (take 5 stats),
           totalPhotos = foldl (\<lambda>sum user. sum + or_zero (photoCount user)) 0 stats,
           totalVideos = foldl (\<lambda>sum user. sum + or_zero (videoCount user)) 0 stats,
           totalDocs = foldl (\<lambda>sum user. sum + or_zero (documentCount user)) 0 stats,
           totalTexts = foldl (\<lambda>sum user. sum + or_zero (textCount user)) 0 stats,
           duplicateOffenders =
             map (\<lambda>user. (display_name (username user) (userId user), duplicatesPosted user))
               (take 3 offenders)\<rparr>)"

section \<open>An incoming message\<close>

text \<open>
  What the handler reads of a Telegram message, and what its calls to the outside
  return for it:
  \<^item> \<open>chat_is_group\<close> is the result of \<^verbatim>\<open>isGroup(chatId)\<close> (false when
    \<^verbatim>\<open>getChat\<close> fails);
  \<^item> a photo, a video and the file of a document are given by what
    \<^verbatim>\<open>getFile\<close> and \<^verbatim>\<open>fetch\<close> deliver for the file id: the buffer, or \<open>None\<close>
    when one of the calls throws. For a photo this is the file of the last element of
    \<^verbatim>\<open>msg.photo\<close>. A file id is never empty;
  \<^item> \<open>now\<close> is the date \<^verbatim>\<open>new Date()\<close> yields while the message is handled;
  \<^item> \<open>send_ok\<close> tells whether \<^verbatim>\<open>bot.sendMessage\<close> succeeds.
  The database calls themselves are taken to succeed. An exception anywhere ends the
  handler in its \<^verbatim>\<open>catch\<close>, which logs it, with the database as it was left: the
  outcome \<open>Failed\<close>, and \<open>DuplicateUnsent\<close> where it is the notice of a duplicate
  that could not be sent.
\<close>

record from_user =
  from_id :: int
  from_username :: "string option"
  first_name :: string
  last_name :: "string option"

record tg_document =
  mime_type :: "string option"
  doc_file :: "bytes option"

record message =
  chat_id :: int
  chat_is_group :: bool
  sender :: from_user
  message_id :: int
  msg_text :: "string option"
  msg_photo :: "bytes option option"
  msg_video :: "bytes option option"
  msg_document :: "tg_document option"
  now :: int
  send_ok :: bool

text \<open>
  \<^verbatim>\<open>msg.from.username || `${first_name} ${last_name || ''}`.trim()\<close>
  (src/bot.js, line 306). A name is held as the bytes of its UTF-8 encoding.
  \<^verbatim>\<open>trim\<close> strips the white space and the line terminators of ECMAScript at both
  ends: the characters U+0009 to U+000D and U+0020, of one byte; U+00A0, of two; U+1680,
  U+2000 to U+200A, U+2028, U+2029, U+202F, U+205F, U+3000 and U+FEFF, of three.
  \<open>strip_space\<close> strips them at the start of a string, or of a reversed string.
\<close>

definition is_space1 :: "char \<Rightarrow> bool" where
  "is_space1 a = (a \<in> set [CHR 0x09, CHR 0x0A, CHR 0x0B, CHR 0x0C, CHR 0x0D, CHR 0x20])"

definition is_space2 :: "char \<Rightarrow> char \<Rightarrow> bool" where
  "is_space2 a b = (a = CHR 0xC2 \<and> b = CHR 0xA0)"

definition is_space3 :: "char \<Rightarrow> char \<Rightarrow> char \<Rightarrow> bool" where
  "is_space3 a b c =
     (a = CHR 0xE1 \<and> b = CHR 0x9A \<and> c = CHR 0x80 \<or>
      a = CHR 0xE2 \<and> b = CHR 0x80 \<and>
        c \<in> set [CHR 0x80, CHR 0x81, CHR 0x82, CHR 0x83, CHR 0x84, CHR 0x85, CHR 0x86,
                  CHR 0x87, CHR 0x88, CHR 0x89, CHR 0x8A, CHR 0xA8, CHR 0xA9, CHR 0xAF] \<or>
      a = CHR 0xE2 \<and> b = CHR 0x81 \<and> c = CHR 0x9F \<or>
      a = CHR 0xE3 \<and> b = CHR 0x80 \<and> c = CHR 0x80 \<or>
      a = CHR 0xEF \<and> b = CHR 0xBB \<and> c = CHR 0xBF)"

fun strip_space :: "bool \<Rightarrow> string \<Rightarrow> string" where
  "strip_space reversed (a # b # c # str) =
     (if is_space1 a then strip_space reversed (b # c # str)
      else if (if reversed then is_space2 b a else is_space2 a b)
      then strip_space reversed (c # str)
      else if (if reversed then is_space3 c b a else is_space3 a b c)
      then strip_space reversed str
      else a # b # c # str)"
| "strip_space reversed [a, b] =
     (if is_space1 a then strip_space reversed [b]
      else if (if reversed then is_space2 b a else is_space2 a b) then []
      else [a, b])"
| "strip_space reversed [a] = (if is_space1 a then [] else [a])"
| "strip_space reversed [] = []"

definition js_trim :: "string \<Rightarrow> string" where
  "js_trim str = rev (strip_space True (rev (strip_space False str)))"

definition sender_username :: "from_user \<Rightarrow> string" where
  "sender_username u =
     (let full = js_trim (first_name u @ '' '' @ (case last_name u of None \<Rightarrow> [] | Some l \<Rightarrow> l))
      in case from_username u of
           None \<Rightarrow> full
         | Some n \<Rightarrow> if n \<noteq> [] then n else full)"

text \<open>\<^verbatim>\<open>msg.text && msg.text.startsWith('/')\<close> and its counterpart for plain text.\<close>

definition starts_with :: "string \<Rightarrow> string \<Rightarrow> bool" where
  "starts_with pre str = (take (length pre) str = pre)"

definition is_command :: "string option \<Rightarrow> bool" where
  "is_command t = (case t of None \<Rightarrow> False | Some str \<Rightarrow> str \<noteq> [] \<and> starts_with ''/'' str)"

definition is_plain_text :: "string option \<Rightarrow> bool" where
  "is_plain_text t = (case t of None \<Rightarrow> False | Some str \<Rightarrow> str \<noteq> [] \<and> \<not> starts_with ''/'' str)"

text \<open>\<^verbatim>\<open>msg.text.split(' ')[0].substring(1)\<close>\<close>

definition command_of :: "string \<Rightarrow> string" where
  "command_of str = drop 1 (takeWhile (\<lambda>c. c \<noteq> CHR '' '') str)"

text \<open>
  The choice of \<^verbatim>\<open>mediaFileId\<close> and \<^verbatim>\<open>mediaType\<close> (src/bot.js, lines 352-361):
  \<open>None\<close> when both stay undefined, which is the case of a document whose MIME type
  does not start with \<^verbatim>\<open>image/\<close>.
\<close>

definition select_media :: "message \<Rightarrow> (mediaType \<times> bytes option) option" where
  "select_media msg =
     (case msg_photo msg of
        Some file \<Rightarrow> Some (Photo, file)
      | None \<Rightarrow>
         (case msg_video msg of
            Some file \<Rightarrow> Some (Video, file)
          | None \<Rightarrow>
             (case msg_document msg of
                Some d \<Rightarrow>
                  if starts_with ''image/'' (case mime_type d of None \<Rightarrow> [] | Some t \<Rightarrow> t)
                  then Some (Document, doc_file d)
                  else None
              | None \<Rightarrow> None)))"

section \<open>The message handler\<close>

text \<open>
  What handling one message did, next to the new database: the message sent, if any.
  The duplicate notice carries the values its text is made of (src/bot.js,
  lines 381-392): the chat it goes to, the message it replies to, the media type, the
  mention of the first poster and the date of the stored document.
\<close>

record notice =
  to_chat :: int
  reply_to_message_id :: int
  notice_mediaType :: mediaType
  posterMention :: display
  postDate :: int

datatype outcome =
    Ignored
  | StatsReply "report option"
  | HelpReply
  | Duplicate notice
  | DuplicateUnsent
  | Accepted
  | TextCounted
  | Failed

definition poster_mention :: "media_doc \<Rightarrow> display" where
  "poster_mention existingMedia =
     (if username existingMedia \<noteq> [] \<and> CHR '' '' \<notin> set (username existingMedia)
      then At (username existingMedia)
      else display_name (username existingMedia) (userId existingMedia))"

text \<open>
  The document \<^verbatim>\<open>insertOne\<close> stores for a new media (src/bot.js, lines 398-406); its
  hash is \<^verbatim>\<open>mediaHash\<close>, the result of \<open>hashMedia\<close> on the buffer.
\<close>

definition new_media ::
  "(bytes \<Rightarrow> string option) \<Rightarrow> (bytes \<Rightarrow> string) \<Rightarrow> message \<Rightarrow> mediaType \<Rightarrow> bytes \<Rightarrow> media_doc" where
  "new_media imageHash cryptoHash msg mt mediaBuffer =
     \<lparr>userId = from_id (sender msg),
      username = sender_username (sender msg),
      timestamp = now msg,
      chatId = chat_id msg,
      hash = hashMedia imageHash cryptoHash mediaBuffer mt,
      originalMessageId = message_id msg,
      mediaType = mt\<rparr>"

text \<open>
  What the handler does once \<^verbatim>\<open>findSimilarMedia\<close> has returned (src/bot.js,
  lines 379-410), on the database as it is then: for a duplicate the notice (line 388)
  and then \<open>trackDuplicate\<close> (line 395), which is not reached when sending the notice
  throws; \<^verbatim>\<open>insertOne\<close> and \<open>updateUserStatistics\<close> otherwise.
\<close>

definition after_lookup ::
  "(bytes \<Rightarrow> string option) \<Rightarrow> (bytes \<Rightarrow> string) \<Rightarrow> db \<Rightarrow> message \<Rightarrow> mediaType \<Rightarrow> bytes \<Rightarrow>
     media_doc option \<Rightarrow> db \<times> outcome" where
  "after_lookup imageHash cryptoHash s msg mt mediaBuffer existing =
     (case existing of
        Some existingMedia \<Rightarrow>
          if send_ok msg
          then (trackDuplicate s (from_id (sender msg)) (sender_username (sender msg))
                  (now msg),
                Duplicate \<lparr>to_chat = chat_id msg,
                           reply_to_message_id = message_id msg,
                           notice_mediaType = mt,
                           posterMention = poster_mention existingMedia,
                           postDate = timestamp existingMedia\<rparr>)
          else (s, DuplicateUnsent)
      | None \<Rightarrow>
          (updateUserStatistics
             (s\<lparr>media := media s @ [new_media imageHash cryptoHash msg mt mediaBuffer]\<rparr>)
             (from_id (sender msg)) (sender_username (sender msg)) mt (now msg),
           Accepted))"

text \<open>The media branch (src/bot.js, lines 348-411).\<close>

definition handle_media ::
  "(bytes \<Rightarrow> string option) \<Rightarrow> (bytes \<Rightarrow> string) \<Rightarrow> db \<Rightarrow> message \<Rightarrow> db \<times> outcome" where
  "handle_media imageHash cryptoHash s msg =
     (case select_media msg of
        None \<Rightarrow> (s, Ignored)
      | Some (mt, file) \<Rightarrow>
         (case file of
            None \<Rightarrow> (s, Failed)
          | Some mediaBuffer \<Rightarrow>
             (let mediaHash = hashMedia imageHash cryptoHash mediaBuffer mt;
                  existingMedia =
                    findSimilarMedia (media s) mediaHash mt similarityThreshold_default
              in after_lookup imageHash cryptoHash s msg mt mediaBuffer existingMedia)))"

text \<open>What follows the commands (src/bot.js, lines 347-415).\<close>

definition handle_content ::
  "(bytes \<Rightarrow> string option) \<Rightarrow> (bytes \<Rightarrow> string) \<Rightarrow> db \<Rightarrow> message \<Rightarrow> db \<times> outcome" where
  "handle_content imageHash cryptoHash s msg =
     (if msg_photo msg \<noteq> None \<or> msg_video msg \<noteq> None \<or> msg_document msg \<noteq> None
      then handle_media imageHash cryptoHash s msg
      else if is_plain_text (msg_text msg)
      then (updateUserStatistics s (from_id (sender msg)) (sender_username (sender msg))
              Text (now msg),
            TextCounted)
      else (s, Ignored))"

text \<open>The handler of \<^verbatim>\<open>bot.on('message')\<close> (src/bot.js, lines 302-419).\<close>

definition handle_message ::
  "(bytes \<Rightarrow> string option) \<Rightarrow> (bytes \<Rightarrow> string) \<Rightarrow> db \<Rightarrow> message \<Rightarrow> db \<times> outcome" where
  "handle_message imageHash cryptoHash s msg =
     (if \<not> chat_is_group msg \<and> \<not> is_command (msg_text msg) then (s, Ignored)
      else if is_command (msg_text msg) \<and>
              command_of (case msg_text msg of None \<Rightarrow> [] | Some str \<Rightarrow> str) = ''stats''
      then (s, if send_ok msg then StatsReply (generateWeeklyStats s) else Failed)
      else if is_command (msg_text msg) \<and>
              command_of (case msg_text msg of None \<Rightarrow> [] | Some str \<Rightarrow> str) = ''help''
      then (s, if send_ok msg then HelpReply else Failed)
      else handle_content imageHash cryptoHash s msg)"

text \<open>Messages are handled one after the other, each on the database the last one left.\<close>

fun run ::
  "(bytes \<Rightarrow> string option) \<Rightarrow> (bytes \<Rightarrow> string) \<Rightarrow> db \<Rightarrow> message list \<Rightarrow> db \<times> outcome list" where
  "run imageHash cryptoHash s [] = (s, [])"
| "run imageHash cryptoHash s (msg # msgs) =
     (let (s', out) = handle_message imageHash cryptoHash s msg;
          (s'', outs) = run imageHash cryptoHash s' msgs
      in (s'', out # outs))"

section \<open>Sample data\<close>

text \<open>
  Hashes are strings of 64 hexadecimal digits: the SHA-256 digest in hexadecimal, and the
  16 by 16 bits of the perceptual hash in the same notation.
\<close>

definition hash_zero :: string where
  "hash_zero =
     ''0000000000000000000000000000000000000000000000000000000000000000''"

definition hash_six :: string where
  "hash_six =
     ''1111110000000000000000000000000000000000000000000000000000000000''"

definition hash_three :: string where
  "hash_three =
     ''1110000000000000000000000000000000000000000000000000000000000000''"

definition photo_of :: "int \<Rightarrow> string \<Rightarrow> int \<Rightarrow> int \<Rightarrow> string \<Rightarrow> int \<Rightarrow> media_doc" where
  "photo_of uid uname date chat h mid =
     \<lparr>userId = uid, username = uname, timestamp = date, chatId = chat,
      hash = h, originalMessageId = mid, mediaType = Photo\<rparr>"

section \<open>The distance of the specification: a count of differing positions\<close>

text \<open>
  The count of the positions where two lists differ, for lists of the same length.
\<close>

definition differing_positions :: "'a list \<Rightarrow> 'a list \<Rightarrow> nat" where
  "differing_positions xs ys = length (filter (\<lambda>(x, y). x \<noteq> y) (zip xs ys))"

text \<open>
  The bit string a hash in hexadecimal notation stands for, four bits to the digit in
  the digits' order: 64 digits are the 256 bits of the 16 by 16 grid, or of the digest.
\<close>

definition hex_digit_bits :: "char \<Rightarrow> bool list" where
  "hex_digit_bits c =
     (case map_of
        [(CHR ''0'', [False, False, False, False]), (CHR ''1'', [False, False, False, True]),
         (CHR ''2'', [False, False, True, False]), (CHR ''3'', [False, False, True, True]),
         (CHR ''4'', [False, True, False, False]), (CHR ''5'', [False, True, False, True]),
         (CHR ''6'', [False, True, True, False]), (CHR ''7'', [False, True, True, True]),
         (CHR ''8'', [True, False, False, False]), (CHR ''9'', [True, False, False, True]),
         (CHR ''a'', [True, False, True, False]), (CHR ''b'', [True, False, True, True]),
         (CHR ''c'', [True, True, False, False]), (CHR ''d'', [True, True, False, True]),
         (CHR ''e'', [True, True, True, False]), (CHR ''f'', [True, True, True, True])] c of
        Some bits \<Rightarrow> bits
      | None \<Rightarrow> [])"

definition hex_bits :: "string \<Rightarrow> bool list" where
  "hex_bits str = concat (map hex_digit_bits str)"

definition hash_fffff :: string where
  "hash_fffff =
     ''fffff00000000000000000000000000000000000000000000000000000000000''"

section \<open>Reading the statistics of a user, counting the events of a user\<close>

text \<open>
  \<open>stored field s uid\<close> is the field as the database holds it for a user, in the
  document \<^verbatim>\<open>findOne({ userId })\<close> returns: \<open>None\<close> where the user has no document
  or the document has no such field, which JavaScript reads as \<^verbatim>\<open>undefined\<close>. The
  statistics message reads \<^verbatim>\<open>totalMessages\<close> and \<^verbatim>\<open>duplicatesPosted\<close> this way
  (src/bot.js, lines 240, 246 and 264).

  \<open>read_count\<close> is the field read with \<^verbatim>\<open>|| 0\<close>, as the statistics message reads
  the four counters by kind (src/bot.js, lines 250-253); it is the value \<^verbatim>\<open>$inc\<close>
  adds to.
\<close>

definition stored :: "(userStats_doc \<Rightarrow> nat option) \<Rightarrow> db \<Rightarrow> int \<Rightarrow> nat option" where
  "stored field s uid =
     (case find (\<lambda>d. userId d = uid) (userStats s) of
        None \<Rightarrow> None
      | Some d \<Rightarrow> field d)"

definition read_count :: "(userStats_doc \<Rightarrow> nat option) \<Rightarrow> db \<Rightarrow> int \<Rightarrow> nat" where
  "read_count field s uid =
     (case find (\<lambda>d. userId d = uid) (userStats s) of
        None \<Rightarrow> 0
      | Some d \<Rightarrow> or_zero (field d))"

definition is_duplicate :: "outcome \<Rightarrow> bool" where
  "is_duplicate out = (case out of Duplicate _ \<Rightarrow> True | _ \<Rightarrow> False)"

text \<open>
  The number of the messages of a user, in a run, whose outcome satisfies \<open>P\<close>.
\<close>

definition events :: "int \<Rightarrow> (outcome \<Rightarrow> bool) \<Rightarrow> message list \<Rightarrow> outcome list \<Rightarrow> nat" where
  "events uid P msgs outs =
     length (filter (\<lambda>(msg, out). from_id (sender msg) = uid \<and> P out) (zip msgs outs))"

section \<open>Sample messages\<close>

text \<open>
  Two senders, a few buffers, and the two library functions on these buffers. The
  digests are the SHA-256 digests of the buffers; a buffer that is none of the samples
  gets the digest of the empty buffer, and no example uses it.

  \<open>sample_imageHash\<close> is a perceptual hash that works, as where the buffer is written
  to a file for the library to read (\<^verbatim>\<open>src/unnamed/part_000\<close>, lines 119-163): it gives
  the photo and its recompressed copy hashes three digits apart, another photo a hash
  six digits from the first, and fails on the other buffers. \<open>failing_imageHash\<close> is
  the library reporting an error for every buffer (in src/bot.js, line 58, it is handed
  the buffer itself, not the path of a file): every fingerprint is then a digest.
\<close>

definition alice :: from_user where
  "alice = \<lparr>from_id = 1, from_username = Some ''alice'', first_name = ''Alice'',
            last_name = None\<rparr>"

definition bob :: from_user where
  "bob = \<lparr>from_id = 2, from_username = None, first_name = ''Bob'',
          last_name = Some ''Builder''\<rparr>"

definition photo_bytes :: bytes where
  "photo_bytes = [0xFF, 0xD8, 0xFF]"

definition recompressed_bytes :: bytes where
  "recompressed_bytes = [0xFF, 0xD8, 0xFE]"

definition other_photo_bytes :: bytes where
  "other_photo_bytes = [0xFF, 0xD8, 0xFD]"

definition video_bytes :: bytes where
  "video_bytes = [0x00, 0x00, 0x00, 0x18]"

definition corrupt_bytes :: bytes where
  "corrupt_bytes = [0x01, 0x02, 0x03]"

definition pdf_bytes :: bytes where
  "pdf_bytes = [0x25, 0x50, 0x44, 0x46]"

definition sample_imageHash :: "bytes \<Rightarrow> string option" where
  "sample_imageHash buf =
     (if buf = photo_bytes then Some hash_zero
      else if buf = recompressed_bytes then Some hash_three
      else if buf = other_photo_bytes then Some hash_six
      else None)"

definition failing_imageHash :: "bytes \<Rightarrow> string option" where
  "failing_imageHash buf = None"

definition sample_cryptoHash :: "bytes \<Rightarrow> string" where
  "sample_cryptoHash buf =
     (if buf = photo_bytes
      then ''6e568e1f67fba258184c78181539e5e8fdee447e49bb706fc0ea34fbf12336a5''
      else if buf = recompressed_bytes
      then ''ab974f5355d5f76261a85bec68a54cbe49fa7a9e1f40e10400e3394da65079a9''
      else if buf = other_photo_bytes
      then ''dbb33191d8d9dfef691298d30591d8597706be896a8abb260e43f4e88816dd96''
      else if buf = video_bytes
      then ''79a881f99a636d0ad75f16f53668982b59f8bb96c3fbb449155fe7a08dba9cb1''
      else if buf = corrupt_bytes
      then ''039058c6f2c0cb492c533b0a4d14ef77cc0f78abccced5287d84a1a2011cfb81''
      else if buf = pdf_bytes
      then ''315d429b7714cedb6ad04ac31240145257692630457f3c88253c5beceac76027''
      else ''e3b0c44298fc1c149afbf4c8996fb92427ae41e4649b934ca495991b7852b855'')"

text \<open>
  A message of a sender in a chat, with its id and the date it is handled at; the chat is
  a group and sending succeeds. Text and media are added to it.
\<close>

definition message_of :: "from_user \<Rightarrow> int \<Rightarrow> int \<Rightarrow> int \<Rightarrow> message" where
  "message_of u chat mid date =
     \<lparr>chat_id = chat, chat_is_group = True, sender = u, message_id = mid,
      msg_text = None, msg_photo = None, msg_video = None, msg_document = None,
      now = date, send_ok = True\<rparr>"

definition photo_message :: "from_user \<Rightarrow> int \<Rightarrow> int \<Rightarrow> int \<Rightarrow> bytes \<Rightarrow> message" where
  "photo_message u chat mid date buf = (message_of u chat mid date)\<lparr>msg_photo := Some (Some buf)\<rparr>"

definition video_message :: "from_user \<Rightarrow> int \<Rightarrow> int \<Rightarrow> int \<Rightarrow> bytes \<Rightarrow> message" where
  "video_message u chat mid date buf = (message_of u chat mid date)\<lparr>msg_video := Some (Some buf)\<rparr>"

definition text_message :: "from_user \<Rightarrow> int \<Rightarrow> int \<Rightarrow> int \<Rightarrow> string \<Rightarrow> message" where
  "text_message u chat mid date str = (message_of u chat mid date)\<lparr>msg_text := Some str\<rparr>"

definition pdf_message :: "from_user \<Rightarrow> int \<Rightarrow> int \<Rightarrow> int \<Rightarrow> message" where
  "pdf_message u chat mid date =
     (message_of u chat mid date)
       \<lparr>msg_document := Some \<lparr>mime_type = Some ''application/pdf'', doc_file = Some pdf_bytes\<rparr>\<rparr>"

text \<open>A third sender, and a month in milliseconds.\<close>

definition carol :: from_user where
  "carol = \<lparr>from_id = 3, from_username = Some ''carol'', first_name = ''Carol'',
            last_name = None\<rparr>"

definition thirty_days :: int where
  "thirty_days = 30 * 24 * 60 * 60 * 1000"

section \<open>The statistics message of the other variants\<close>

text \<open>
  \<^verbatim>\<open>generateWeeklyStats\<close> of \<^verbatim>\<open>src/unnamed/part_001\<close> (lines 290-434; the one of
  \<^verbatim>\<open>src/unnamed/part_000\<close>, lines 307-454, computes the same values and prints them with
  other markup, without the documents' total). It reads the \<^verbatim>\<open>media\<close>, \<^verbatim>\<open>textMessages\<close> and
  \<^verbatim>\<open>duplicates\<close> collections, each with the query
  \<^verbatim>\<open>{ timestamp: { $gte: oneWeekAgo } }\<close>, and the stored reaction count of each media
  document (\<^verbatim>\<open>getMessageReactions\<close>, a parameter here: 0 where nothing is stored).

  An object keyed by user id is the list of its entries in the order they were added.
  \<^verbatim>\<open>Object.values\<close> lists the values of the keys that are array indices (integers
  from 0 to \<^verbatim>\<open>2^32 - 2\<close>) first, in ascending order, then the other values in the
  order they were added. Where a counter is read it is read with \<^verbatim>\<open>|| 0\<close>, so an
  absent \<^verbatim>\<open>textCount\<close> is 0 here. No stored media document has the type text; the
  model counts one as a text.
\<close>

record text_doc = msg_doc +
  messageId :: int

record weekly_user =
  week_userId :: int
  week_name :: display
  week_photoCount :: nat
  week_videoCount :: nat
  week_documentCount :: nat
  week_textCount :: nat
  week_totalMessages :: nat

record tally =
  tally_userId :: int
  tally_name :: display
  tally_count :: nat

fun upsert :: "int \<Rightarrow> 'a \<Rightarrow> ('a \<Rightarrow> 'a) \<Rightarrow> (int \<times> 'a) list \<Rightarrow> (int \<times> 'a) list" where
  "upsert k init f [] = [(k, f init)]"
| "upsert k init f ((k', v) # obj) =
     (if k' = k then (k', f v) # obj else (k', v) # upsert k init f obj)"

definition is_index_key :: "int \<Rightarrow> bool" where
  "is_index_key k = (0 \<le> k \<and> k < 2 ^ 32 - 1)"

definition object_values :: "(int \<times> 'a) list \<Rightarrow> 'a list" where
  "object_values obj =
     map snd (sort_key fst (filter (\<lambda>(k, v). is_index_key k) obj) @
              filter (\<lambda>(k, v). \<not> is_index_key k) obj)"

definition descending_nat :: "('a \<Rightarrow> nat) \<Rightarrow> 'a \<Rightarrow> 'a \<Rightarrow> int" where
  "descending_nat field a b = int (field b) - int (field a)"

definition week_ms :: int where
  "week_ms = 7 * 24 * 60 * 60 * 1000"

definition count_media :: "media_doc \<Rightarrow> (int \<times> weekly_user) list \<Rightarrow> (int \<times> weekly_user) list" where
  "count_media m obj =
     upsert (userId m)
       \<lparr>week_userId = userId m, week_name = display_name (username m) (userId m),
        week_photoCount = 0, week_videoCount = 0, week_documentCount = 0,
        week_textCount = 0, week_totalMessages = 0\<rparr>
       (\<lambda>u. (case mediaType m of
                Photo \<Rightarrow> u\<lparr>week_photoCount := week_photoCount u + 1\<rparr>
              | Video \<Rightarrow> u\<lparr>week_videoCount := week_videoCount u + 1\<rparr>
              | Document \<Rightarrow> u\<lparr>week_documentCount := week_documentCount u + 1\<rparr>
              | Text \<Rightarrow> u\<lparr>week_textCount := week_textCount u + 1\<rparr>)
             \<lparr>week_totalMessages := week_totalMessages u + 1\<rparr>)
       obj"

definition count_text :: "text_doc \<Rightarrow> (int \<times> weekly_user) list \<Rightarrow> (int \<times> weekly_user) list" where
  "count_text m obj =
     upsert (userId m)
       \<lparr>week_userId = userId m, week_name = display_name (username m) (userId m),
        week_photoCount = 0, week_videoCount = 0, week_documentCount = 0,
        week_textCount = 0, week_totalMessages = 0\<rparr>
       (\<lambda>u. u\<lparr>week_textCount := week_textCount u + 1,
               week_totalMessages := week_totalMessages u + 1\<rparr>)
       obj"

definition count_reactions ::
  "(int \<Rightarrow> int \<Rightarrow> nat) \<Rightarrow> media_doc \<Rightarrow> (int \<times> tally) list \<Rightarrow> (int \<times> tally) list" where
  "count_reactions getMessageReactions m obj =
     (let reactionCount = getMessageReactions (chatId m) (originalMessageId m)
      in if reactionCount > 0
         then upsert (userId m)
                \<lparr>tally_userId = userId m,
                 tally_name = display_name (username m) (userId m), tally_count = 0\<rparr>
                (\<lambda>u. u\<lparr>tally_count := tally_count u + reactionCount\<rparr>) obj
         else obj)"

definition count_duplicate :: "event_doc \<Rightarrow> (int \<times> tally) list \<Rightarrow> (int \<times> tally) list" where
  "count_duplicate d obj =
     upsert (userId d)
       \<lparr>tally_userId = userId d,
        tally_name = display_name (username d) (userId d), tally_count = 0\<rparr>
       (\<lambda>u. u\<lparr>tally_count := tally_count u + 1\<rparr>) obj"

record weekly_report =
  week_topContributors :: "(display \<times> nat) list"
  week_topReactor :: "(display \<times> nat) option"
  week_totalPhotos :: nat
  week_totalVideos :: nat
  week_totalDocs :: nat
  week_totalTexts :: nat
  week_duplicateOffenders :: "(display \<times> nat) list"

definition generateWeeklyStats_windowed ::
  "int \<Rightarrow> media_doc list \<Rightarrow> text_doc list \<Rightarrow> event_doc list \<Rightarrow> (int \<Rightarrow> int \<Rightarrow> nat) \<Rightarrow>
     weekly_report" where
  "generateWeeklyStats_windowed date mediaColl textMessages duplicates getMessageReactions =
     (let oneWeekAgo = date - week_ms;
          weeklyMedia = filter (\<lambda>m. timestamp m \<ge> oneWeekAgo) mediaColl;
          weeklyTextMessages = filter (\<lambda>m. timestamp m \<ge> oneWeekAgo) textMessages;
          weeklyDuplicates = filter (\<lambda>d. timestamp d \<ge> oneWeekAgo) duplicates;
          userWeeklyStats =
            foldl (\<lambda>obj m. count_text m obj)
              (foldl (\<lambda>obj m. count_media m obj) [] weeklyMedia) weeklyTextMessages;
          userReactionStats =
            foldl (\<lambda>obj m. count_reactions getMessageReactions m obj) [] weeklyMedia;
          weeklyStatsArray =
            js_sort (descending_nat week_totalMessages) (object_values userWeeklyStats);
          reactionStatsArray =
            js_sort (descending_nat tally_count) (object_values userReactionStats);
          duplicateOffenders =
            js_sort (descending_nat tally_count)
              (filter (\<lambda>user. tally_count user > 0)
                 (object_values (foldl (\<lambda>obj d. count_duplicate d obj) [] weeklyDuplicates)))
      in \<lparr>week_topContributors =
            map (\<lambda>user. (week_name user, week_totalMessages user)) (take 5 weeklyStatsArray),
          week_topReactor =
            (case reactionStatsArray of
               [] \<Rightarrow> None
             | topReactor # _ \<Rightarrow> Some (tally_name topReactor, tally_count topReactor)),
          week_totalPhotos = foldl (\<lambda>sum user. sum + week_photoCount user) 0 weeklyStatsArray,
          week_totalVideos = foldl (\<lambda>sum user. sum + week_videoCount user) 0 weeklyStatsArray,
          week_totalDocs = foldl (\<lambda>sum user. sum + week_documentCount user) 0 weeklyStatsArray,
          week_totalTexts = foldl (\<lambda>sum user. sum + week_textCount user) 0 weeklyStatsArray,
          week_duplicateOffenders =
            map (\<lambda>user. (tally_name user, tally_count user)) (take 3 duplicateOffenders)\<rparr>)"

text \<open>Stored documents for the examples of the weekly window.\<close>

definition text_of :: "int \<Rightarrow> string \<Rightarrow> int \<Rightarrow> int \<Rightarrow> int \<Rightarrow> text_doc" where
  "text_of uid uname date chat mid =
     \<lparr>userId = uid, username = uname, timestamp = date, chatId = chat, messageId = mid\<rparr>"

definition duplicate_of :: "int \<Rightarrow> string \<Rightarrow> int \<Rightarrow> event_doc" where
  "duplicate_of uid uname date = \<lparr>userId = uid, username = uname, timestamp = date\<rparr>"

section \<open>Two activations of the handler\<close>

text \<open>
  The handler is an \<^verbatim>\<open>async\<close> function: it runs up to an \<^verbatim>\<open>await\<close>, and while it
  waits another activation of the handler may run. Nothing in the handler holds a lock
  or opens a transaction. \<open>handle_media\<close> is the lookup followed by \<open>after_lookup\<close> on
  the same database. In \<open>lookups_first\<close> two media messages are handled so that both
  lookups (src/bot.js, line 377) run on the database \<open>s\<close> before either activation
  writes; then the first activation continues, then the second.
\<close>

definition lookups_first ::
  "(bytes \<Rightarrow> string option) \<Rightarrow> (bytes \<Rightarrow> string) \<Rightarrow> db \<Rightarrow>
     message \<Rightarrow> mediaType \<Rightarrow> bytes \<Rightarrow> message \<Rightarrow> mediaType \<Rightarrow> bytes \<Rightarrow> db \<times> outcome list" where
  "lookups_first imageHash cryptoHash s msg1 mt1 buf1 msg2 mt2 buf2 =
     (let existing1 =
            findSimilarMedia (media s) (hashMedia imageHash cryptoHash buf1 mt1) mt1
              similarityThreshold_default;
          existing2 =
            findSimilarMedia (media s) (hashMedia imageHash cryptoHash buf2 mt2) mt2
              similarityThreshold_default;
          (s1, out1) = after_lookup imageHash cryptoHash s msg1 mt1 buf1 existing1;
          (s2, out2) = after_lookup imageHash cryptoHash s1 msg2 mt2 buf2 existing2
      in (s2, [out1, out2]))"

section \<open>A user's document and the user's events\<close>

text \<open>
  \<open>counts_agree s u n m\<close>: the \<^verbatim>\<open>userStats\<close> collection holds for the user \<open>u\<close>
  what \<open>n\<close> counted messages and \<open>m\<close> recorded duplicates leave there. With neither
  there is no document. Otherwise there is one, \<^verbatim>\<open>duplicatesPosted\<close> is \<open>m\<close>, and
  \<^verbatim>\<open>totalMessages\<close> is \<open>n\<close>, or absent when \<open>n\<close> is 0.
\<close>

definition counts_agree :: "db \<Rightarrow> int \<Rightarrow> nat \<Rightarrow> nat \<Rightarrow> bool" where
  "counts_agree s u n m =
     (case find (\<lambda>d. userId d = u) (userStats s) of
        None \<Rightarrow> n = 0 \<and> m = 0
      | Some d \<Rightarrow>
          (n > 0 \<or> m > 0) \<and>
          totalMessages d = (if n = 0 then None else Some n) \<and>
          duplicatesPosted d = Some m)"

section \<open>Equations for evaluating the sample runs\<close>

lemmas sample_defs = alice_def bob_def photo_bytes_def recompressed_bytes_def
  other_photo_bytes_def video_bytes_def
  corrupt_bytes_def pdf_bytes_def sample_imageHash_def failing_imageHash_def
  sample_cryptoHash_def carol_def message_of_def
  photo_message_def video_message_def text_message_def pdf_message_def
  hash_zero_def hash_three_def hash_six_def photo_of_def

lemmas model_defs = handle_message_def handle_content_def handle_media_def after_lookup_def
  select_media_def
  new_media_def hashMedia_def findSimilarMedia_def is_perceptual_def hash_distance_def
  calculateHashDistance_def similarityThreshold_default_def updateUserStatistics_def
  trackDuplicate_def inc_def inc_count_def is_command_def is_plain_text_def starts_with_def
  command_of_def sender_username_def js_trim_def is_space1_def is_space2_def is_space3_def
  poster_mention_def
  display_name_def empty_db_def Let_def one_enat_def is_duplicate_def read_count_def
  stored_def or_zero_def events_def

lemmas report_defs = generateWeeklyStats_def comparator_consistent_def js_sort_def
  descending_def
  generateWeeklyStats_windowed_def count_media_def count_text_def count_reactions_def
  count_duplicate_def object_values_def is_index_key_def descending_nat_def week_ms_def
  text_of_def duplicate_of_def thirty_days_def

section \<open>The closest stored photo\<close>

lemma scan_media_none:
  "\<forall>m \<in> set ms. \<not> (hash_distance h m \<le> enat t \<and> hash_distance h m < low) \<Longrightarrow>
     scan_media h t ms acc low = acc"
  by (induction ms arbitrary: acc low) (auto simp: Let_def)

lemma scan_media_some:
  "\<exists>m \<in> set ms. hash_distance h m \<le> enat t \<and> hash_distance h m < low \<Longrightarrow>
     \<exists>pre r post. ms = pre @ r # post \<and> scan_media h t ms acc low = Some r \<and>
        hash_distance h r \<le> enat t \<and> hash_distance h r < low \<and>
        (\<forall>m \<in> set pre. hash_distance h r < hash_distance h m) \<and>
        (\<forall>m \<in> set post. hash_distance h r \<le> hash_distance h m)"
proof (induction ms arbitrary: acc low)
  case Nil
  then show ?case by simp
next
  case (Cons m ms)
  let ?d = "hash_distance h"
  show ?case
  proof (cases "?d m \<le> enat t \<and> ?d m < low")
    case True
    then have step: "scan_media h t (m # ms) acc low = scan_media h t ms (Some m) (?d m)"
      by (simp add: Let_def)
    show ?thesis
    proof (cases "\<exists>x \<in> set ms. ?d x \<le> enat t \<and> ?d x < ?d m")
      case False
      then have "scan_media h t ms (Some m) (?d m) = Some m"
        by (intro scan_media_none) blast
      moreover have "\<forall>x \<in> set ms. ?d m \<le> ?d x"
      proof
        fix x assume "x \<in> set ms"
        with False have "\<not> (?d x \<le> enat t \<and> ?d x < ?d m)" by blast
        with True show "?d m \<le> ?d x"
          by (metis not_le_imp_less order.strict_implies_order order_trans)
      qed
      ultimately have "m # ms = [] @ m # ms \<and> scan_media h t (m # ms) acc low = Some m \<and>
        ?d m \<le> enat t \<and> ?d m < low \<and> (\<forall>x \<in> set []. ?d m < ?d x) \<and>
        (\<forall>x \<in> set ms. ?d m \<le> ?d x)"
        using True step by simp
      then show ?thesis by blast
    next
      case ex: True
      from Cons.IH[OF ex, of "Some m"]
      obtain pre r post where p: "ms = pre @ r # post"
        "scan_media h t ms (Some m) (?d m) = Some r"
        "?d r \<le> enat t" "?d r < ?d m"
        "\<forall>x \<in> set pre. ?d r < ?d x"
        "\<forall>x \<in> set post. ?d r \<le> ?d x"
        by blast
      have "?d r < low" using p(4) True by (metis order.strict_trans)
      then have "m # ms = (m # pre) @ r # post \<and> scan_media h t (m # ms) acc low = Some r \<and>
        ?d r \<le> enat t \<and> ?d r < low \<and> (\<forall>x \<in> set (m # pre). ?d r < ?d x) \<and>
        (\<forall>x \<in> set post. ?d r \<le> ?d x)"
        using p step by simp
      then show ?thesis by blast
    qed
  next
    case notm: False
    then have step: "scan_media h t (m # ms) acc low = scan_media h t ms acc low"
      by (auto simp add: Let_def)
    from Cons.prems notm have ex: "\<exists>x \<in> set ms. ?d x \<le> enat t \<and> ?d x < low"
      by auto
    from Cons.IH[OF ex, of acc]
    obtain pre r post where p: "ms = pre @ r # post"
        "scan_media h t ms acc low = Some r"
        "?d r \<le> enat t" "?d r < low"
        "\<forall>x \<in> set pre. ?d r < ?d x"
        "\<forall>x \<in> set post. ?d r \<le> ?d x"
      by blast
    have "?d r < ?d m"
    proof (rule ccontr)
      assume "\<not> ?d r < ?d m"
      then have "?d m \<le> ?d r" by simp
      with p(3,4) have "?d m \<le> enat t \<and> ?d m < low"
        by (metis order_trans order.strict_trans1)
      with notm show False by blast
    qed
    then have "m # ms = (m # pre) @ r # post \<and> scan_media h t (m # ms) acc low = Some r \<and>
        ?d r \<le> enat t \<and> ?d r < low \<and> (\<forall>x \<in> set (m # pre). ?d r < ?d x) \<and>
        (\<forall>x \<in> set post. ?d r \<le> ?d x)"
      using p step by simp
    then show ?thesis by blast
  qed
qed

lemma below_threshold: "(d \<le> enat t \<and> d < enat t + 1) = (d \<le> enat t)"
  by (cases d) (auto simp: one_enat_def)

lemma findSimilarMedia_perceptual_none:
  assumes "is_perceptual mt"
  shows "(findSimilarMedia coll h mt t = None) =
           (\<forall>m \<in> set coll. is_perceptual (mediaType m) \<longrightarrow> \<not> hash_distance h m \<le> enat t)"
proof (cases "\<exists>m \<in> set (filter (\<lambda>m. is_perceptual (mediaType m)) coll).
                 hash_distance h m \<le> enat t \<and> hash_distance h m < enat t + 1")
  case True
  from scan_media_some[OF True, of None]
  have "findSimilarMedia coll h mt t \<noteq> None"
    using assms by (auto simp: findSimilarMedia_def)
  moreover from True have "\<not> (\<forall>m \<in> set coll. is_perceptual (mediaType m) \<longrightarrow> \<not> hash_distance h m \<le> enat t)"
    by auto
  ultimately show ?thesis by blast
next
  case False
  then have "findSimilarMedia coll h mt t = None"
    using assms by (simp add: findSimilarMedia_def scan_media_none)
  moreover from False have "\<forall>m \<in> set coll. is_perceptual (mediaType m) \<longrightarrow> \<not> hash_distance h m \<le> enat t"
    by (auto simp: below_threshold)
  ultimately show ?thesis by simp
qed

lemma findSimilarMedia_perceptual_some:
  assumes "is_perceptual mt" and "findSimilarMedia coll h mt t = Some r"
  shows "\<exists>pre post. filter (\<lambda>m. is_perceptual (mediaType m)) coll = pre @ r # post \<and>
           hash_distance h r \<le> enat t \<and>
           (\<forall>m \<in> set pre. hash_distance h r < hash_distance h m) \<and>
           (\<forall>m \<in> set post. hash_distance h r \<le> hash_distance h m)"
proof -
  let ?c = "filter (\<lambda>m. is_perceptual (mediaType m)) coll"
  have scan: "scan_media h t ?c None (enat t + 1) = Some r"
    using assms by (simp add: findSimilarMedia_def)
  have "\<exists>m \<in> set ?c. hash_distance h m \<le> enat t \<and> hash_distance h m < enat t + 1"
  proof (rule ccontr)
    assume "\<not> ?thesis"
    then have "scan_media h t ?c None (enat t + 1) = None"
      by (intro scan_media_none) blast
    with scan show False by simp
  qed
  from scan_media_some[OF this, of None] scan show ?thesis by auto
qed

lemma first_closest_earliest:
  assumes "sorted_wrt (\<lambda>a b. timestamp a \<le> timestamp b) coll"
    and split: "filter P coll = pre @ r # post"
    and pre: "\<forall>m \<in> set pre. d r < d m"
    and m: "m \<in> set coll" "P m" "d m = (d r :: enat)"
  shows "timestamp r \<le> timestamp m"
proof -
  have "sorted_wrt (\<lambda>a b. timestamp a \<le> timestamp b) (pre @ r # post)"
    using assms(1) split by (metis sorted_wrt_filter)
  then have post: "\<forall>x \<in> set post. timestamp r \<le> timestamp x"
    by (simp add: sorted_wrt_append)
  have "m \<in> set (filter P coll)" using m by simp
  then have "m \<in> set (pre @ r # post)" using split by simp
  then consider "m \<in> set pre" | "m = r" | "m \<in> set post" by auto
  then show ?thesis
  proof cases
    case 1
    with pre m show ?thesis by auto
  next
    case 2
    then show ?thesis by simp
  next
    case 3
    with post show ?thesis by simp
  qed
qed

text \<open>
  C1, amended. For a photo or an image document, \<open>findSimilarMedia\<close> scans the stored
  documents of these two types in the order of the collection. It returns none exactly
  when no such document is within the threshold. Otherwise it returns a document within
  the threshold whose distance is the smallest, and among those of the smallest distance
  the first one in the order of the collection: every document before it is strictly
  farther. The dates are not compared; where the collection is in the order of its
  dates, the document returned is one of the earliest date among the closest.
\<close>

theorem findSimilarMedia_first_closest:
  assumes "is_perceptual mt"
  shows "(findSimilarMedia coll h mt t = None \<longleftrightarrow>
            (\<forall>m \<in> set coll. is_perceptual (mediaType m) \<longrightarrow> \<not> hash_distance h m \<le> enat t)) \<and>
         (\<forall>r. findSimilarMedia coll h mt t = Some r \<longrightarrow>
            (\<exists>pre post. filter (\<lambda>m. is_perceptual (mediaType m)) coll = pre @ r # post \<and>
               hash_distance h r \<le> enat t \<and>
               (\<forall>m \<in> set pre. hash_distance h r < hash_distance h m) \<and>
               (\<forall>m \<in> set post. hash_distance h r \<le> hash_distance h m)) \<and>
            (sorted_wrt (\<lambda>a b. timestamp a \<le> timestamp b) coll \<longrightarrow>
               (\<forall>m \<in> set coll. is_perceptual (mediaType m) \<and>
                    hash_distance h m = hash_distance h r \<longrightarrow> timestamp r \<le> timestamp m)))"
proof (intro conjI allI impI)
  show "findSimilarMedia coll h mt t = None \<longleftrightarrow>
          (\<forall>m \<in> set coll. is_perceptual (mediaType m) \<longrightarrow> \<not> hash_distance h m \<le> enat t)"
    by (rule findSimilarMedia_perceptual_none[OF assms])
next
  fix r assume "findSimilarMedia coll h mt t = Some r"
  then show "\<exists>pre post. filter (\<lambda>m. is_perceptual (mediaType m)) coll = pre @ r # post \<and>
               hash_distance h r \<le> enat t \<and>
               (\<forall>m \<in> set pre. hash_distance h r < hash_distance h m) \<and>
               (\<forall>m \<in> set post. hash_distance h r \<le> hash_distance h m)"
    by (rule findSimilarMedia_perceptual_some[OF assms])
next
  fix r assume r: "findSimilarMedia coll h mt t = Some r"
    and s: "sorted_wrt (\<lambda>a b. timestamp a \<le> timestamp b) coll"
  from findSimilarMedia_perceptual_some[OF assms r]
  obtain pre post where p: "filter (\<lambda>m. is_perceptual (mediaType m)) coll = pre @ r # post"
    "\<forall>m \<in> set pre. hash_distance h r < hash_distance h m" by blast
  show "\<forall>m \<in> set coll. is_perceptual (mediaType m) \<and>
          hash_distance h m = hash_distance h r \<longrightarrow> timestamp r \<le> timestamp m"
    using first_closest_earliest[OF s p(1), of "hash_distance h"] p(2) by blast
qed

theorem findSimilarMedia_first_closest_witness:
  "is_perceptual Photo \<and>
   sorted_wrt (\<lambda>a b. timestamp a \<le> timestamp b)
     [photo_of 2 ''bob'' 1000 (-100) hash_six 11, photo_of 1 ''alice'' 2000 (-100) hash_zero 12] \<and>
   findSimilarMedia
     [photo_of 2 ''bob'' 1000 (-100) hash_six 11, photo_of 1 ''alice'' 2000 (-100) hash_zero 12]
     hash_three Photo 5 = Some (photo_of 2 ''bob'' 1000 (-100) hash_six 11) \<and>
   hash_distance hash_three (photo_of 1 ''alice'' 2000 (-100) hash_zero 12) =
     hash_distance hash_three (photo_of 2 ''bob'' 1000 (-100) hash_six 11) \<and>
   timestamp (photo_of 2 ''bob'' 1000 (-100) hash_six 11) \<le>
     timestamp (photo_of 1 ''alice'' 2000 (-100) hash_zero 12)"
  using findSimilarMedia_first_closest
    [of Photo "[photo_of 2 ''bob'' 1000 (-100) hash_six 11,
                photo_of 1 ''alice'' 2000 (-100) hash_zero 12]" hash_three 5]
  by (simp add: findSimilarMedia_def is_perceptual_def photo_of_def hash_distance_def
      calculateHashDistance_def hash_zero_def hash_six_def hash_three_def Let_def
      one_enat_def)

text \<open>
  C1 as stated fails. Two photos are stored, the second at an earlier date than the
  first (the dates are those of the clock of the machine, which was set back in
  between). They are equally close to the query; the one scanned first has the later
  date, and it is the one returned.
\<close>

theorem findSimilarMedia_tie_counterexample:
  "media (fst (run sample_imageHash sample_cryptoHash empty_db
      [photo_message alice (-100) 12 2000 photo_bytes,
       photo_message bob (-100) 11 1000 other_photo_bytes])) =
     [photo_of 1 ''alice'' 2000 (-100) hash_zero 12,
      photo_of 2 ''Bob Builder'' 1000 (-100) hash_six 11] \<and>
   findSimilarMedia
     [photo_of 1 ''alice'' 2000 (-100) hash_zero 12,
      photo_of 2 ''Bob Builder'' 1000 (-100) hash_six 11]
     hash_three Photo 5 = Some (photo_of 1 ''alice'' 2000 (-100) hash_zero 12) \<and>
   hash_distance hash_three (photo_of 2 ''Bob Builder'' 1000 (-100) hash_six 11) =
     hash_distance hash_three (photo_of 1 ''alice'' 2000 (-100) hash_zero 12) \<and>
   hash_distance hash_three (photo_of 2 ''Bob Builder'' 1000 (-100) hash_six 11) \<le> enat 5 \<and>
   timestamp (photo_of 2 ''Bob Builder'' 1000 (-100) hash_six 11) <
     timestamp (photo_of 1 ''alice'' 2000 (-100) hash_zero 12)"
  by (simp add: sample_defs model_defs)

section \<open>The distance counts characters\<close>

lemma count_differing_acc:
  "count_differing xs ys d = d + differing_positions xs ys"
  by (induction xs ys d rule: count_differing.induct) (simp_all add: differing_positions_def)

lemma differing_positions_card:
  "length xs = length ys \<Longrightarrow>
     differing_positions xs ys = card {i. i < length xs \<and> xs ! i \<noteq> ys ! i}"
proof (induction xs ys rule: list_induct2)
  case Nil
  then show ?case by (simp add: differing_positions_def)
next
  case (Cons x xs y ys)
  let ?S = "{i. i < length xs \<and> xs ! i \<noteq> ys ! i}"
  let ?T = "{i. i < length (x # xs) \<and> (x # xs) ! i \<noteq> (y # ys) ! i}"
  have fin: "finite ?S" by simp
  have T: "?T = (if x \<noteq> y then {0} else {}) \<union> Suc ` ?S"
  proof (rule set_eqI)
    fix i show "i \<in> ?T \<longleftrightarrow> i \<in> (if x \<noteq> y then {0} else {}) \<union> Suc ` ?S"
      by (cases i) auto
  qed
  have "card ?T = (if x \<noteq> y then 1 else 0) + card ?S"
    unfolding T using fin
    by (auto simp: card_image card_insert_if)
  with Cons show ?case by (simp add: differing_positions_def)
qed

lemma calculateHashDistance_eq:
  "calculateHashDistance x y =
     (case (x, y) of
        (Some h1, Some h2) \<Rightarrow>
          if h1 \<noteq> [] \<and> h2 \<noteq> [] \<and> length h1 = length h2
          then enat (differing_positions h1 h2) else \<infinity>
      | _ \<Rightarrow> \<infinity>)"
  by (auto simp: calculateHashDistance_def count_differing_acc split: option.splits)

lemma hash_distance_within:
  "hash_distance h m \<le> enat t \<Longrightarrow>
     h \<noteq> [] \<and> hash m \<noteq> [] \<and> length (hash m) = length h \<and>
     hash_distance h m = enat (differing_positions h (hash m)) \<and>
     differing_positions h (hash m) \<le> t"
  by (auto simp: hash_distance_def calculateHashDistance_eq split: if_splits)

text \<open>
  C2, amended. A fingerprint is a string, and the distance used for matching is the
  count of the positions at which two strings of the same length, neither empty, differ
  in their character: with the hexadecimal notation of the hashes, a count of
  hexadecimal digits out of 64 and not of bits out of 256. The default threshold is 5
  such positions. Where a hash is missing or empty or the lengths differ, the distance
  is infinite, which no threshold admits: a document returned for a photo or an image
  document has a hash of the length of the query's, and differs from it in at most
  threshold many characters.
\<close>

theorem calculateHashDistance_counts_characters:
  "calculateHashDistance x y =
     (case (x, y) of
        (Some h1, Some h2) \<Rightarrow>
          if h1 \<noteq> [] \<and> h2 \<noteq> [] \<and> length h1 = length h2
          then enat (differing_positions h1 h2) else \<infinity>
      | _ \<Rightarrow> \<infinity>) \<and>
   similarityThreshold_default = 5 \<and>
   (calculateHashDistance x y = \<infinity> \<longrightarrow> \<not> calculateHashDistance x y \<le> enat t) \<and>
   (is_perceptual mt \<and> findSimilarMedia coll h mt t = Some r \<longrightarrow>
      h \<noteq> [] \<and> hash r \<noteq> [] \<and> length (hash r) = length h \<and>
      hash_distance h r = enat (differing_positions h (hash r)) \<and>
      differing_positions h (hash r) \<le> t)"
proof (intro conjI impI)
  show "calculateHashDistance x y =
     (case (x, y) of
        (Some h1, Some h2) \<Rightarrow>
          if h1 \<noteq> [] \<and> h2 \<noteq> [] \<and> length h1 = length h2
          then enat (differing_positions h1 h2) else \<infinity>
      | _ \<Rightarrow> \<infinity>)"
    by (rule calculateHashDistance_eq)
next
  show "similarityThreshold_default = 5"
    by (simp add: similarityThreshold_default_def)
next
  assume "calculateHashDistance x y = \<infinity>"
  then show "\<not> calculateHashDistance x y \<le> enat t" by simp
next
  assume a: "is_perceptual mt \<and> findSimilarMedia coll h mt t = Some r"
  then have "hash_distance h r \<le> enat t"
    using findSimilarMedia_perceptual_some[of mt coll h t r] by blast
  from hash_distance_within[OF this]
  show "h \<noteq> []" and "hash r \<noteq> []" and "length (hash r) = length h"
    and "hash_distance h r = enat (differing_positions h (hash r))"
    and "differing_positions h (hash r) \<le> t"
    by simp_all
qed

theorem calculateHashDistance_counts_characters_witness:
  "calculateHashDistance (Some hash_three) (Some hash_six) = enat 3 \<and>
   calculateHashDistance (Some hash_three) (Some ''111'') = \<infinity> \<and>
   \<not> calculateHashDistance (Some hash_three) (Some ''111'') \<le> enat 5 \<and>
   is_perceptual Photo \<and>
   findSimilarMedia [photo_of 2 ''bob'' 1000 (-100) hash_six 11] hash_three Photo 5 =
     Some (photo_of 2 ''bob'' 1000 (-100) hash_six 11) \<and>
   length (hash (photo_of 2 ''bob'' 1000 (-100) hash_six 11)) = length hash_three \<and>
   differing_positions hash_three (hash (photo_of 2 ''bob'' 1000 (-100) hash_six 11)) \<le> 5"
  using calculateHashDistance_counts_characters
    [where x = "Some hash_three" and y = "Some ''111''" and t = 5 and mt = Photo
       and coll = "[photo_of 2 ''bob'' 1000 (-100) hash_six 11]" and h = hash_three
       and r = "photo_of 2 ''bob'' 1000 (-100) hash_six 11"]
  by (simp add: findSimilarMedia_def is_perceptual_def photo_of_def hash_distance_def
      calculateHashDistance_def hash_six_def hash_three_def Let_def
      one_enat_def differing_positions_def)

text \<open>
  C2 as stated fails: two hashes of 256 bits differ in 20 bits, their distance is 5,
  and under the default threshold the one matches the other.
\<close>

theorem hash_distance_bits_counterexample:
  "length (hex_bits hash_fffff) = 256 \<and> length (hex_bits hash_zero) = 256 \<and>
   differing_positions (hex_bits hash_fffff) (hex_bits hash_zero) = 20 \<and>
   calculateHashDistance (Some hash_fffff) (Some hash_zero) = enat 5 \<and>
   findSimilarMedia [photo_of 1 ''alice'' 1000 (-100) hash_zero 12] hash_fffff Photo
     similarityThreshold_default = Some (photo_of 1 ''alice'' 1000 (-100) hash_zero 12)"
  by (simp add: findSimilarMedia_def is_perceptual_def photo_of_def hash_distance_def
      calculateHashDistance_def hash_zero_def hash_fffff_def Let_def
      one_enat_def differing_positions_def hex_bits_def hex_digit_bits_def
      similarityThreshold_default_def)

section \<open>What one message does to the database\<close>

lemma find_updateOne_same:
  "(\<And>x. p x \<Longrightarrow> p (f x)) \<Longrightarrow> find p (updateOne p f xs) = map_option f (find p xs)"
  by (induction xs) auto

lemma find_updateOne_other:
  "(\<And>x. p x \<Longrightarrow> \<not> q x \<and> \<not> q (f x)) \<Longrightarrow> find q (updateOne p f xs) = find q xs"
  by (induction xs) auto

lemma find_snoc:
  "find p (xs @ [x]) = (case find p xs of Some y \<Rightarrow> Some y | None \<Rightarrow> if p x then Some x else None)"
  by (induction xs) auto







lemma counter_other_fields [simp]:
  "read_count field (s\<lparr>media := ms\<rparr>) u = read_count field s u"
  "read_count field (s\<lparr>duplicateTracking := dt\<rparr>) u = read_count field s u"
  by (simp_all add: read_count_def)

lemma userId_inc_count [simp]: "userId (inc_count mt d) = userId d"
  by (simp add: inc_count_def split: mediaType.splits)

lemma fields_inc_count [simp]:
  "photoCount (inc_count mt d) = (if mt = Photo then inc (photoCount d) else photoCount d)"
  "videoCount (inc_count mt d) = (if mt = Video then inc (videoCount d) else videoCount d)"
  "documentCount (inc_count mt d) = (if mt = Document then inc (documentCount d) else documentCount d)"
  "textCount (inc_count mt d) = (if mt = Text then inc (textCount d) else textCount d)"
  "totalMessages (inc_count mt d) = totalMessages d"
  "duplicatesPosted (inc_count mt d) = duplicatesPosted d"
  by (simp_all add: inc_count_def split: mediaType.splits)



lemma doc_updateOne:
  assumes "\<And>d. userId (g d) = userId d"
  shows "find (\<lambda>d. userId d = u) (updateOne (\<lambda>d. userId d = uid) g xs) =
     (if u = uid then map_option g (find (\<lambda>d. userId d = uid) xs)
      else find (\<lambda>d. userId d = u) xs)"
proof (cases "u = uid")
  case True
  have "find (\<lambda>d. userId d = uid) (updateOne (\<lambda>d. userId d = uid) g xs) =
          map_option g (find (\<lambda>d. userId d = uid) xs)"
    by (rule find_updateOne_same) (simp add: assms)
  with True show ?thesis by simp
next
  case False
  have "find (\<lambda>d. userId d = u) (updateOne (\<lambda>d. userId d = uid) g xs) =
          find (\<lambda>d. userId d = u) xs"
    by (rule find_updateOne_other) (use False in \<open>simp add: assms\<close>)
  with False show ?thesis by simp
qed

lemma doc_updateUserStatistics:
  "find (\<lambda>d. userId d = u) (userStats (updateUserStatistics s uid un mt date)) =
     (if u = uid
      then Some
        (case find (\<lambda>d. userId d = uid) (userStats s) of
           Some d \<Rightarrow>
             (inc_count mt d)\<lparr>totalMessages := inc (totalMessages (inc_count mt d)),
                               username := un, lastActive := date\<rparr>
         | None \<Rightarrow>
             \<lparr>userId = uid, username = un,
              photoCount = Some (if mt = Photo then 1 else 0),
              videoCount = Some (if mt = Video then 1 else 0),
              documentCount = Some (if mt = Document then 1 else 0),
              textCount = Some (if mt = Text then 1 else 0),
              duplicatesPosted = Some 0, totalMessages = Some 1,
              firstSeen = Some date, lastActive = date\<rparr>)
      else find (\<lambda>d. userId d = u) (userStats s))"
  by (cases "find (\<lambda>d. userId d = uid) (userStats s)")
     (simp_all add: updateUserStatistics_def doc_updateOne find_snoc split: option.splits)

lemma doc_trackDuplicate:
  "find (\<lambda>d. userId d = u) (userStats (trackDuplicate s uid un date)) =
     (if u = uid
      then Some
        (case find (\<lambda>d. userId d = uid) (userStats s) of
           Some d \<Rightarrow>
             d\<lparr>duplicatesPosted := inc (duplicatesPosted d), username := un,
               lastActive := date\<rparr>
         | None \<Rightarrow>
             \<lparr>userId = uid, username = un,
              photoCount = None, videoCount = None, documentCount = None,
              textCount = None, duplicatesPosted = Some 1, totalMessages = None,
              firstSeen = None, lastActive = date\<rparr>)
      else find (\<lambda>d. userId d = u) (userStats s))"
  by (cases "find (\<lambda>d. userId d = uid) (userStats s)")
     (simp_all add: trackDuplicate_def Let_def doc_updateOne find_snoc split: option.splits)

lemma stored_updateUserStatistics:
  "stored totalMessages (updateUserStatistics s uid un mt date) u =
     (if u = uid then Some (or_zero (stored totalMessages s u) + 1)
      else stored totalMessages s u)"
  "stored duplicatesPosted (updateUserStatistics s uid un mt date) u =
     (if u = uid \<and> find (\<lambda>d. userId d = uid) (userStats s) = None then Some 0
      else stored duplicatesPosted s u)"
  by (simp_all add: stored_def doc_updateUserStatistics inc_def or_zero_def
        split: option.splits)

lemma stored_trackDuplicate:
  "stored duplicatesPosted (trackDuplicate s uid un date) u =
     (if u = uid then Some (or_zero (stored duplicatesPosted s u) + 1)
      else stored duplicatesPosted s u)"
  "stored totalMessages (trackDuplicate s uid un date) u = stored totalMessages s u"
  "stored photoCount (trackDuplicate s uid un date) u = stored photoCount s u"
  "stored videoCount (trackDuplicate s uid un date) u = stored videoCount s u"
  "stored documentCount (trackDuplicate s uid un date) u = stored documentCount s u"
  "stored textCount (trackDuplicate s uid un date) u = stored textCount s u"
  by (simp_all add: stored_def doc_trackDuplicate inc_def or_zero_def split: option.splits)

lemma stored_other_fields [simp]:
  "stored field (s\<lparr>media := ms\<rparr>) u = stored field s u"
  "stored field (s\<lparr>duplicateTracking := dt\<rparr>) u = stored field s u"
  by (simp_all add: stored_def)

lemma counts_agree_other_fields [simp]:
  "counts_agree (s\<lparr>media := ms\<rparr>) u n m = counts_agree s u n m"
  "counts_agree (s\<lparr>duplicateTracking := dt\<rparr>) u n m = counts_agree s u n m"
  by (simp_all add: counts_agree_def)



lemma handle_media_cases:
  obtains
    (unchanged) "handle_media ih ch s msg = (s, Ignored) \<or> handle_media ih ch s msg = (s, Failed)"
  | (duplicate) mt buf e where
      "select_media msg = Some (mt, Some buf)"
      "findSimilarMedia (media s) (hashMedia ih ch buf mt) mt similarityThreshold_default = Some e"
      "send_ok msg"
      "handle_media ih ch s msg =
         (trackDuplicate s (from_id (sender msg)) (sender_username (sender msg)) (now msg),
          Duplicate \<lparr>to_chat = chat_id msg, reply_to_message_id = message_id msg,
                     notice_mediaType = mt, posterMention = poster_mention e,
                     postDate = timestamp e\<rparr>)"
  | (unsent) mt buf e where
      "select_media msg = Some (mt, Some buf)"
      "findSimilarMedia (media s) (hashMedia ih ch buf mt) mt similarityThreshold_default = Some e"
      "\<not> send_ok msg"
      "handle_media ih ch s msg = (s, DuplicateUnsent)"
  | (accepted) mt buf where
      "select_media msg = Some (mt, Some buf)"
      "findSimilarMedia (media s) (hashMedia ih ch buf mt) mt similarityThreshold_default = None"
      "handle_media ih ch s msg =
         (updateUserStatistics (s\<lparr>media := media s @ [new_media ih ch msg mt buf]\<rparr>)
            (from_id (sender msg)) (sender_username (sender msg)) mt (now msg), Accepted)"
proof (cases "select_media msg")
  case None
  then have "handle_media ih ch s msg = (s, Ignored)" by (simp add: handle_media_def)
  then show ?thesis using unchanged by simp
next
  case (Some sel)
  obtain mt fl where sel: "sel = (mt, fl)" by (cases sel)
  show ?thesis
  proof (cases fl)
    case None
    then have "handle_media ih ch s msg = (s, Failed)"
      using Some sel by (simp add: handle_media_def)
    then show ?thesis using unchanged by simp
  next
    case (Some buf)
    note buf = this
    have sm: "select_media msg = Some (mt, Some buf)" using \<open>select_media msg = Some sel\<close> sel buf by simp
    show ?thesis
    proof (cases "findSimilarMedia (media s) (hashMedia ih ch buf mt) mt similarityThreshold_default")
      case None
      then show ?thesis using sm accepted[of mt buf]
        by (simp add: handle_media_def after_lookup_def Let_def new_media_def)
    next
      case (Some e)
      show ?thesis
      proof (cases "send_ok msg")
        case True
        then show ?thesis using sm Some duplicate[of mt buf e]
          by (simp add: handle_media_def after_lookup_def Let_def)
      next
        case False
        then have "handle_media ih ch s msg = (s, DuplicateUnsent)"
          using sm Some by (simp add: handle_media_def after_lookup_def Let_def)
        then show ?thesis using sm Some False unsent[of mt buf e] by simp
      qed
    qed
  qed
qed

lemma handle_message_cases:
  obtains
    (unchanged) "fst (handle_message ih ch s msg) = s"
      "snd (handle_message ih ch s msg) \<noteq> Accepted"
      "snd (handle_message ih ch s msg) \<noteq> TextCounted"
      "snd (handle_message ih ch s msg) \<noteq> DuplicateUnsent"
      "\<not> is_duplicate (snd (handle_message ih ch s msg))"
  | (unsent) mt buf e where
      "select_media msg = Some (mt, Some buf)"
      "findSimilarMedia (media s) (hashMedia ih ch buf mt) mt similarityThreshold_default = Some e"
      "\<not> send_ok msg"
      "handle_message ih ch s msg = (s, DuplicateUnsent)"
  | (duplicate) mt buf e where
      "select_media msg = Some (mt, Some buf)"
      "findSimilarMedia (media s) (hashMedia ih ch buf mt) mt similarityThreshold_default = Some e"
      "send_ok msg"
      "handle_message ih ch s msg =
         (trackDuplicate s (from_id (sender msg)) (sender_username (sender msg)) (now msg),
          Duplicate \<lparr>to_chat = chat_id msg, reply_to_message_id = message_id msg,
                     notice_mediaType = mt, posterMention = poster_mention e,
                     postDate = timestamp e\<rparr>)"
  | (accepted) mt buf where
      "select_media msg = Some (mt, Some buf)"
      "findSimilarMedia (media s) (hashMedia ih ch buf mt) mt similarityThreshold_default = None"
      "handle_message ih ch s msg =
         (updateUserStatistics (s\<lparr>media := media s @ [new_media ih ch msg mt buf]\<rparr>)
            (from_id (sender msg)) (sender_username (sender msg)) mt (now msg), Accepted)"
  | (plain) "is_plain_text (msg_text msg)"
      "msg_photo msg = None" "msg_video msg = None" "msg_document msg = None"
      "handle_message ih ch s msg =
         (updateUserStatistics s (from_id (sender msg)) (sender_username (sender msg)) Text
            (now msg), TextCounted)"
proof (cases "handle_message ih ch s msg = handle_content ih ch s msg")
  case False
  then have "fst (handle_message ih ch s msg) = s \<and>
      snd (handle_message ih ch s msg) \<noteq> Accepted \<and>
      snd (handle_message ih ch s msg) \<noteq> TextCounted \<and>
      snd (handle_message ih ch s msg) \<noteq> DuplicateUnsent \<and>
      \<not> is_duplicate (snd (handle_message ih ch s msg))"
    by (simp add: handle_message_def is_duplicate_def split: if_splits)
  then show ?thesis using unchanged by blast
next
  case hc: True
  show ?thesis
  proof (cases "msg_photo msg \<noteq> None \<or> msg_video msg \<noteq> None \<or> msg_document msg \<noteq> None")
    case True
    then have hm: "handle_message ih ch s msg = handle_media ih ch s msg"
      using hc by (simp add: handle_content_def)
    show ?thesis
    proof (cases rule: handle_media_cases[of ih ch s msg])
      case unchanged
      then have "fst (handle_message ih ch s msg) = s \<and>
        snd (handle_message ih ch s msg) \<noteq> Accepted \<and>
        snd (handle_message ih ch s msg) \<noteq> TextCounted \<and>
        snd (handle_message ih ch s msg) \<noteq> DuplicateUnsent \<and>
        \<not> is_duplicate (snd (handle_message ih ch s msg))"
        using hm by (auto simp: is_duplicate_def)
      then show ?thesis using that(1) by blast
    next
      case (unsent mt buf e)
      then show ?thesis using hm that(2)[of mt buf e] by simp
    next
      case (duplicate mt buf e)
      then show ?thesis using hm that(3)[of mt buf e] by simp
    next
      case (accepted mt buf)
      then show ?thesis using hm that(4)[of mt buf] by simp
    qed
  next
    case nomedia: False
    show ?thesis
    proof (cases "is_plain_text (msg_text msg)")
      case True
      then show ?thesis using nomedia hc that(5) by (simp add: handle_content_def)
    next
      case False
      then have "handle_message ih ch s msg = (s, Ignored)"
        using nomedia hc by (simp add: handle_content_def)
      then show ?thesis using that(1) by (simp add: is_duplicate_def)
    qed
  qed
qed

section \<open>One fingerprint record for each accepted post\<close>

lemma collections_after_update:
  "media (updateUserStatistics s uid un mt date) = media s"
  "duplicateTracking (updateUserStatistics s uid un mt date) = duplicateTracking s"
  "media (trackDuplicate s uid un date) = media s"
  "duplicateTracking (trackDuplicate s uid un date) =
     duplicateTracking s @ [\<lparr>userId = uid, username = un, timestamp = date\<rparr>]"
  by (simp_all add: updateUserStatistics_def trackDuplicate_def Let_def split: option.splits)

text \<open>
  C3, amended. A media post that is accepted, that is, for which \<open>findSimilarMedia\<close>
  found no stored document, appends exactly one document to the \<^verbatim>\<open>media\<close>
  collection and records no duplicate: \<^verbatim>\<open>duplicateTracking\<close> stays as it is, and
  the stored \<^verbatim>\<open>duplicatesPosted\<close> of every user stays as it is, but for the 0 a
  sender without a document gets with the new document. A post judged a duplicate, that
  is, for which \<open>findSimilarMedia\<close> found a stored document, never adds to the
  \<^verbatim>\<open>media\<close> collection. The notice is sent before anything is recorded. When it is
  sent, the post appends one document to \<^verbatim>\<open>duplicateTracking\<close> and adds one to the
  sender's stored \<^verbatim>\<open>duplicatesPosted\<close> (an absent one becomes 1), and changes no
  other stored counter of any user. When sending the notice fails, the database stays
  as it is: no document is appended and no counter changes. Any other outcome changes
  neither collection. In a group, a media message whose file was fetched is accepted
  when nothing similar is stored; when something is, it is a recorded duplicate if the
  notice can be sent and an unrecorded one if not.
\<close>

theorem media_post_records:
  "(snd (handle_message ih ch s msg) = Accepted \<longrightarrow>
      (\<exists>mt buf. select_media msg = Some (mt, Some buf) \<and>
         findSimilarMedia (media s) (hashMedia ih ch buf mt) mt similarityThreshold_default = None \<and>
         media (fst (handle_message ih ch s msg)) = media s @ [new_media ih ch msg mt buf]) \<and>
      duplicateTracking (fst (handle_message ih ch s msg)) = duplicateTracking s \<and>
      (\<forall>u. stored duplicatesPosted (fst (handle_message ih ch s msg)) u =
             (if u = from_id (sender msg) \<and>
                 find (\<lambda>d. userId d = from_id (sender msg)) (userStats s) = None
              then Some 0 else stored duplicatesPosted s u))) \<and>
   (is_duplicate (snd (handle_message ih ch s msg)) \<longrightarrow>
      (\<exists>mt buf e. select_media msg = Some (mt, Some buf) \<and>
         findSimilarMedia (media s) (hashMedia ih ch buf mt) mt similarityThreshold_default = Some e) \<and>
      send_ok msg \<and>
      media (fst (handle_message ih ch s msg)) = media s \<and>
      duplicateTracking (fst (handle_message ih ch s msg)) =
        duplicateTracking s @
          [\<lparr>userId = from_id (sender msg), username = sender_username (sender msg),
            timestamp = now msg\<rparr>] \<and>
      (\<forall>u. stored duplicatesPosted (fst (handle_message ih ch s msg)) u =
             (if u = from_id (sender msg) then Some (or_zero (stored duplicatesPosted s u) + 1)
              else stored duplicatesPosted s u) \<and>
           stored totalMessages (fst (handle_message ih ch s msg)) u = stored totalMessages s u \<and>
           stored photoCount (fst (handle_message ih ch s msg)) u = stored photoCount s u \<and>
           stored videoCount (fst (handle_message ih ch s msg)) u = stored videoCount s u \<and>
           stored documentCount (fst (handle_message ih ch s msg)) u = stored documentCount s u \<and>
           stored textCount (fst (handle_message ih ch s msg)) u = stored textCount s u)) \<and>
   (snd (handle_message ih ch s msg) = DuplicateUnsent \<longrightarrow>
      (\<exists>mt buf e. select_media msg = Some (mt, Some buf) \<and>
         findSimilarMedia (media s) (hashMedia ih ch buf mt) mt similarityThreshold_default = Some e) \<and>
      \<not> send_ok msg \<and> fst (handle_message ih ch s msg) = s) \<and>
   (snd (handle_message ih ch s msg) \<noteq> Accepted \<and> \<not> is_duplicate (snd (handle_message ih ch s msg)) \<longrightarrow>
      media (fst (handle_message ih ch s msg)) = media s \<and>
      duplicateTracking (fst (handle_message ih ch s msg)) = duplicateTracking s) \<and>
   (chat_is_group msg \<and> msg_text msg = None \<and> select_media msg = Some (mt', Some buf') \<longrightarrow>
      (findSimilarMedia (media s) (hashMedia ih ch buf' mt') mt' similarityThreshold_default = None
         \<longrightarrow> snd (handle_message ih ch s msg) = Accepted) \<and>
      (findSimilarMedia (media s) (hashMedia ih ch buf' mt') mt' similarityThreshold_default \<noteq> None
         \<and> send_ok msg \<longrightarrow> is_duplicate (snd (handle_message ih ch s msg))) \<and>
      (findSimilarMedia (media s) (hashMedia ih ch buf' mt') mt' similarityThreshold_default \<noteq> None
         \<and> \<not> send_ok msg \<longrightarrow> handle_message ih ch s msg = (s, DuplicateUnsent)))"
proof (intro conjI)
  show "snd (handle_message ih ch s msg) = Accepted \<longrightarrow>
      (\<exists>mt buf. select_media msg = Some (mt, Some buf) \<and>
         findSimilarMedia (media s) (hashMedia ih ch buf mt) mt similarityThreshold_default = None \<and>
         media (fst (handle_message ih ch s msg)) = media s @ [new_media ih ch msg mt buf]) \<and>
      duplicateTracking (fst (handle_message ih ch s msg)) = duplicateTracking s \<and>
      (\<forall>u. stored duplicatesPosted (fst (handle_message ih ch s msg)) u =
             (if u = from_id (sender msg) \<and>
                 find (\<lambda>d. userId d = from_id (sender msg)) (userStats s) = None
              then Some 0 else stored duplicatesPosted s u))"
    by (cases rule: handle_message_cases[of ih ch s msg])
       (auto simp: is_duplicate_def stored_updateUserStatistics collections_after_update)
next
  show "is_duplicate (snd (handle_message ih ch s msg)) \<longrightarrow>
      (\<exists>mt buf e. select_media msg = Some (mt, Some buf) \<and>
         findSimilarMedia (media s) (hashMedia ih ch buf mt) mt similarityThreshold_default = Some e) \<and>
      send_ok msg \<and>
      media (fst (handle_message ih ch s msg)) = media s \<and>
      duplicateTracking (fst (handle_message ih ch s msg)) =
        duplicateTracking s @
          [\<lparr>userId = from_id (sender msg), username = sender_username (sender msg),
            timestamp = now msg\<rparr>] \<and>
      (\<forall>u. stored duplicatesPosted (fst (handle_message ih ch s msg)) u =
             (if u = from_id (sender msg) then Some (or_zero (stored duplicatesPosted s u) + 1)
              else stored duplicatesPosted s u) \<and>
           stored totalMessages (fst (handle_message ih ch s msg)) u = stored totalMessages s u \<and>
           stored photoCount (fst (handle_message ih ch s msg)) u = stored photoCount s u \<and>
           stored videoCount (fst (handle_message ih ch s msg)) u = stored videoCount s u \<and>
           stored documentCount (fst (handle_message ih ch s msg)) u = stored documentCount s u \<and>
           stored textCount (fst (handle_message ih ch s msg)) u = stored textCount s u)"
    by (cases rule: handle_message_cases[of ih ch s msg])
       (auto simp: is_duplicate_def stored_trackDuplicate collections_after_update)
next
  show "snd (handle_message ih ch s msg) = DuplicateUnsent \<longrightarrow>
      (\<exists>mt buf e. select_media msg = Some (mt, Some buf) \<and>
         findSimilarMedia (media s) (hashMedia ih ch buf mt) mt similarityThreshold_default = Some e) \<and>
      \<not> send_ok msg \<and> fst (handle_message ih ch s msg) = s"
    by (cases rule: handle_message_cases[of ih ch s msg]) auto
next
  show "snd (handle_message ih ch s msg) \<noteq> Accepted \<and> \<not> is_duplicate (snd (handle_message ih ch s msg)) \<longrightarrow>
      media (fst (handle_message ih ch s msg)) = media s \<and>
      duplicateTracking (fst (handle_message ih ch s msg)) = duplicateTracking s"
    by (cases rule: handle_message_cases[of ih ch s msg])
       (auto simp: is_duplicate_def collections_after_update)
next
  show "chat_is_group msg \<and> msg_text msg = None \<and> select_media msg = Some (mt', Some buf') \<longrightarrow>
      (findSimilarMedia (media s) (hashMedia ih ch buf' mt') mt' similarityThreshold_default = None
         \<longrightarrow> snd (handle_message ih ch s msg) = Accepted) \<and>
      (findSimilarMedia (media s) (hashMedia ih ch buf' mt') mt' similarityThreshold_default \<noteq> None
         \<and> send_ok msg \<longrightarrow> is_duplicate (snd (handle_message ih ch s msg))) \<and>
      (findSimilarMedia (media s) (hashMedia ih ch buf' mt') mt' similarityThreshold_default \<noteq> None
         \<and> \<not> send_ok msg \<longrightarrow> handle_message ih ch s msg = (s, DuplicateUnsent))"
  proof (intro impI)
    assume a: "chat_is_group msg \<and> msg_text msg = None \<and> select_media msg = Some (mt', Some buf')"
    then have "msg_photo msg \<noteq> None \<or> msg_video msg \<noteq> None \<or> msg_document msg \<noteq> None"
      by (auto simp: select_media_def split: option.splits)
    with a have "handle_message ih ch s msg = handle_media ih ch s msg"
      by (simp add: handle_message_def handle_content_def is_command_def)
    with a show "(findSimilarMedia (media s) (hashMedia ih ch buf' mt') mt' similarityThreshold_default = None
         \<longrightarrow> snd (handle_message ih ch s msg) = Accepted) \<and>
      (findSimilarMedia (media s) (hashMedia ih ch buf' mt') mt' similarityThreshold_default \<noteq> None
         \<and> send_ok msg \<longrightarrow> is_duplicate (snd (handle_message ih ch s msg))) \<and>
      (findSimilarMedia (media s) (hashMedia ih ch buf' mt') mt' similarityThreshold_default \<noteq> None
         \<and> \<not> send_ok msg \<longrightarrow> handle_message ih ch s msg = (s, DuplicateUnsent))"
      by (auto simp: handle_media_def after_lookup_def Let_def is_duplicate_def)
  qed
qed

theorem media_post_records_witness:
  "handle_message failing_imageHash sample_cryptoHash empty_db
     (photo_message alice (-100) 10 1000 photo_bytes) =
   (\<lparr>media = [photo_of 1 ''alice'' 1000 (-100) (sample_cryptoHash photo_bytes) 10],
     userStats =
       [\<lparr>userId = 1, username = ''alice'', photoCount = Some 1,
          videoCount = Some 0, documentCount = Some 0, textCount = Some 0,
          duplicatesPosted = Some 0, totalMessages = Some 1,
          firstSeen = Some 1000, lastActive = 1000\<rparr>],
     duplicateTracking = []\<rparr>, Accepted) \<and>
   handle_message failing_imageHash sample_cryptoHash
     (fst (handle_message failing_imageHash sample_cryptoHash empty_db
        (photo_message alice (-100) 10 1000 photo_bytes)))
     (photo_message bob (-100) 11 2000 photo_bytes) =
   (\<lparr>media = [photo_of 1 ''alice'' 1000 (-100) (sample_cryptoHash photo_bytes) 10],
     userStats =
       [\<lparr>userId = 1, username = ''alice'', photoCount = Some 1,
          videoCount = Some 0, documentCount = Some 0, textCount = Some 0,
          duplicatesPosted = Some 0, totalMessages = Some 1,
          firstSeen = Some 1000, lastActive = 1000\<rparr>,
        \<lparr>userId = 2, username = ''Bob Builder'', photoCount = None,
          videoCount = None, documentCount = None, textCount = None,
          duplicatesPosted = Some 1, totalMessages = None,
          firstSeen = None, lastActive = 2000\<rparr>],
     duplicateTracking = [\<lparr>userId = 2, username = ''Bob Builder'', timestamp = 2000\<rparr>]\<rparr>,
    Duplicate \<lparr>to_chat = -100, reply_to_message_id = 11, notice_mediaType = Photo,
               posterMention = At ''alice'', postDate = 1000\<rparr>) \<and>
   \<not> send_ok ((photo_message bob (-100) 11 2000 photo_bytes)\<lparr>send_ok := False\<rparr>) \<and>
   snd (handle_message failing_imageHash sample_cryptoHash
     (fst (handle_message failing_imageHash sample_cryptoHash empty_db
        (photo_message alice (-100) 10 1000 photo_bytes)))
     ((photo_message bob (-100) 11 2000 photo_bytes)\<lparr>send_ok := False\<rparr>)) = DuplicateUnsent \<and>
   snd (handle_message failing_imageHash sample_cryptoHash empty_db
          (text_message bob (-100) 12 3000 ''hello'')) = TextCounted \<and>
   media (fst (handle_message failing_imageHash sample_cryptoHash empty_db
          (text_message bob (-100) 12 3000 ''hello''))) = []"
  using media_post_records
    [where ih = failing_imageHash and ch = sample_cryptoHash and s = empty_db
       and msg = "photo_message alice (-100) 10 1000 photo_bytes"
       and mt' = Photo and buf' = photo_bytes]
    media_post_records
    [where ih = failing_imageHash and ch = sample_cryptoHash
       and s = "fst (handle_message failing_imageHash sample_cryptoHash empty_db
                  (photo_message alice (-100) 10 1000 photo_bytes))"
       and msg = "photo_message bob (-100) 11 2000 photo_bytes"
       and mt' = Photo and buf' = photo_bytes]
    media_post_records
    [where ih = failing_imageHash and ch = sample_cryptoHash
       and s = "fst (handle_message failing_imageHash sample_cryptoHash empty_db
                  (photo_message alice (-100) 10 1000 photo_bytes))"
       and msg = "(photo_message bob (-100) 11 2000 photo_bytes)\<lparr>send_ok := False\<rparr>"
       and mt' = Photo and buf' = photo_bytes]
    media_post_records
    [where ih = failing_imageHash and ch = sample_cryptoHash and s = empty_db
       and msg = "text_message bob (-100) 12 3000 ''hello''"
       and mt' = Photo and buf' = photo_bytes]
  by (simp add: sample_defs model_defs)

text \<open>
  C3 as stated fails. A photo is accepted; the same bytes are posted again, and
  \<open>findSimilarMedia\<close> finds the stored document, but the notice cannot be sent: no
  document is appended to \<^verbatim>\<open>duplicateTracking\<close> and the sender's
  \<^verbatim>\<open>duplicatesPosted\<close> is not written.
\<close>

theorem unsent_duplicate_counterexample:
  "run failing_imageHash sample_cryptoHash empty_db
     [photo_message alice (-100) 10 1000 photo_bytes,
      (photo_message bob (-100) 11 2000 photo_bytes)\<lparr>send_ok := False\<rparr>] =
   (\<lparr>media = [photo_of 1 ''alice'' 1000 (-100) (sample_cryptoHash photo_bytes) 10],
     userStats =
       [\<lparr>userId = 1, username = ''alice'', photoCount = Some 1,
          videoCount = Some 0, documentCount = Some 0, textCount = Some 0,
          duplicatesPosted = Some 0, totalMessages = Some 1,
          firstSeen = Some 1000, lastActive = 1000\<rparr>],
     duplicateTracking = []\<rparr>,
    [Accepted, DuplicateUnsent]) \<and>
   findSimilarMedia [photo_of 1 ''alice'' 1000 (-100) (sample_cryptoHash photo_bytes) 10]
     (hashMedia failing_imageHash sample_cryptoHash photo_bytes Photo) Photo
     similarityThreshold_default =
   Some (photo_of 1 ''alice'' 1000 (-100) (sample_cryptoHash photo_bytes) 10) \<and>
   stored duplicatesPosted
     (fst (run failing_imageHash sample_cryptoHash empty_db
        [photo_message alice (-100) 10 1000 photo_bytes,
         (photo_message bob (-100) 11 2000 photo_bytes)\<lparr>send_ok := False\<rparr>])) 2 = None"
  by (simp add: sample_defs model_defs)

section \<open>The counters of a user count the user's events\<close>


lemma run_Cons:
  "run ih ch s (msg # msgs) =
     (fst (run ih ch (fst (handle_message ih ch s msg)) msgs),
      snd (handle_message ih ch s msg) # snd (run ih ch (fst (handle_message ih ch s msg)) msgs))"
  by (simp add: split_beta)


lemma events_Nil [simp]: "events u P [] outs = 0"
  by (simp add: events_def)


lemma counter_empty_db [simp]: "read_count field empty_db u = 0"
  by (simp add: read_count_def empty_db_def)








section \<open>Commands\<close>

text \<open>
  C10. A text message whose text starts with \<^verbatim>\<open>/\<close> leaves the database as it is:
  no counter of \<^verbatim>\<open>userStats\<close> changes and no collection gets a document. It is
  neither counted as a text message nor accepted nor a duplicate.
\<close>

theorem command_leaves_database:
  "is_command (msg_text msg) \<and>
   msg_photo msg = None \<and> msg_video msg = None \<and> msg_document msg = None \<longrightarrow>
     fst (handle_message ih ch s msg) = s \<and> snd (handle_message ih ch s msg) \<noteq> TextCounted \<and> snd (handle_message ih ch s msg) \<noteq> Accepted \<and>
     \<not> is_duplicate (snd (handle_message ih ch s msg))"
  by (auto simp: handle_message_def handle_content_def is_command_def is_plain_text_def
        is_duplicate_def split: option.splits)

theorem command_leaves_database_witness:
  "is_command (msg_text (text_message bob (-100) 14 5000 ''/start now'')) \<and>
   fst (handle_message sample_imageHash sample_cryptoHash
          \<lparr>media = [photo_of 1 ''alice'' 1000 (-100) hash_zero 10], userStats = [],
           duplicateTracking = []\<rparr>
          (text_message bob (-100) 14 5000 ''/start now'')) =
     \<lparr>media = [photo_of 1 ''alice'' 1000 (-100) hash_zero 10], userStats = [],
      duplicateTracking = []\<rparr> \<and>
   snd (handle_message sample_imageHash sample_cryptoHash
          \<lparr>media = [photo_of 1 ''alice'' 1000 (-100) hash_zero 10], userStats = [],
           duplicateTracking = []\<rparr>
          (text_message bob (-100) 14 5000 ''/start now'')) = Ignored"
  using command_leaves_database
    [where msg = "text_message bob (-100) 14 5000 ''/start now''"
       and ih = sample_imageHash and ch = sample_cryptoHash
       and s = "\<lparr>media = [photo_of 1 ''alice'' 1000 (-100) hash_zero 10], userStats = [],
           duplicateTracking = []\<rparr>"]
  by (simp add: sample_defs model_defs)

section \<open>Documents that are not images, and videos\<close>

lemma find_append_Some: "find P xs = Some r \<Longrightarrow> find P (xs @ ys) = Some r"
  by (induction xs) (auto split: if_splits)

lemma handle_message_media_grows:
  "\<exists>ys. media (fst (handle_message ih ch s msg)) = media s @ ys"
  by (cases rule: handle_message_cases[of ih ch s msg])
     (auto simp: collections_after_update)

lemma run_media_grows:
  "\<exists>ys. media (fst (run ih ch s msgs)) = media s @ ys"
proof (induction msgs arbitrary: s)
  case Nil
  then show ?case by simp
next
  case (Cons msg msgs)
  obtain ys where 1: "media (fst (handle_message ih ch s msg)) = media s @ ys"
    using handle_message_media_grows by blast
  obtain zs where 2: "media (fst (run ih ch (fst (handle_message ih ch s msg)) msgs)) =
      media (fst (handle_message ih ch s msg)) @ zs"
    using Cons.IH by blast
  show ?case unfolding run_Cons fst_conv using 1 2 by simp
qed

lemma media_message_handled:
  assumes "chat_is_group msg" "msg_text msg = None" "select_media msg = Some (mt, Some buf)"
  shows "handle_message ih ch s msg = handle_media ih ch s msg"
proof -
  have "msg_photo msg \<noteq> None \<or> msg_video msg \<noteq> None \<or> msg_document msg \<noteq> None"
    using assms(3) by (auto simp: select_media_def split: option.splits)
  with assms show ?thesis
    by (simp add: handle_message_def handle_content_def is_command_def)
qed

lemma media_message_duplicate:
  assumes "chat_is_group msg" "msg_text msg = None" "select_media msg = Some (mt, Some buf)"
    and "send_ok msg"
    and "findSimilarMedia (media s) (hashMedia ih ch buf mt) mt similarityThreshold_default = Some e"
  shows "handle_message ih ch s msg =
     (trackDuplicate s (from_id (sender msg)) (sender_username (sender msg)) (now msg),
      Duplicate \<lparr>to_chat = chat_id msg, reply_to_message_id = message_id msg,
                 notice_mediaType = mt, posterMention = poster_mention e,
                 postDate = timestamp e\<rparr>)"
  using assms media_message_handled[OF assms(1-3), of ih ch s]
  by (simp add: handle_media_def after_lookup_def Let_def)

lemma video_selected:
  "msg_photo msg = None \<Longrightarrow> msg_video msg = Some fl \<Longrightarrow> select_media msg = Some (Video, fl)"
  by (simp add: select_media_def)

text \<open>
  C5, amended. A document whose MIME type does not start with \<^verbatim>\<open>image/\<close>, a PDF for
  one, is not processed at all: the database stays as it is, nothing is recorded and no
  duplicate is reported, however often it is posted. The exact match applies to a
  video: when a video is posted in a group and accepted, and a video of the same bytes
  is posted in a group later, whatever was handled in between, the second post is
  reported as a duplicate with a notice that names the first post's sender and date,
  one document is appended to \<^verbatim>\<open>duplicateTracking\<close>, and the \<^verbatim>\<open>media\<close> collection
  stays as it is.
\<close>

theorem non_image_documents_ignored_videos_exact:
  "(msg_photo msg = None \<and> msg_video msg = None \<and> msg_document msg = Some d \<and>
    \<not> starts_with ''image/'' (case mime_type d of None \<Rightarrow> [] | Some t \<Rightarrow> t) \<longrightarrow>
      fst (handle_message ih ch s msg) = s \<and>
      snd (handle_message ih ch s msg) \<noteq> Accepted \<and>
      \<not> is_duplicate (snd (handle_message ih ch s msg))) \<and>
   (chat_is_group m1 \<and> msg_text m1 = None \<and> msg_photo m1 = None \<and>
    msg_video m1 = Some (Some buf) \<and>
    chat_is_group m2 \<and> msg_text m2 = None \<and> msg_photo m2 = None \<and>
    msg_video m2 = Some (Some buf) \<and> send_ok m2 \<and>
    snd (handle_message ih ch s m1) = Accepted \<longrightarrow>
      snd (handle_message ih ch (fst (run ih ch (fst (handle_message ih ch s m1)) between)) m2) =
        Duplicate \<lparr>to_chat = chat_id m2, reply_to_message_id = message_id m2,
                   notice_mediaType = Video,
                   posterMention = poster_mention (new_media ih ch m1 Video buf),
                   postDate = now m1\<rparr> \<and>
      media (fst (handle_message ih ch (fst (run ih ch (fst (handle_message ih ch s m1)) between)) m2)) =
        media (fst (run ih ch (fst (handle_message ih ch s m1)) between)) \<and>
      duplicateTracking
        (fst (handle_message ih ch (fst (run ih ch (fst (handle_message ih ch s m1)) between)) m2)) =
        duplicateTracking (fst (run ih ch (fst (handle_message ih ch s m1)) between)) @
          [\<lparr>userId = from_id (sender m2), username = sender_username (sender m2),
            timestamp = now m2\<rparr>])"
proof (intro conjI impI)
  assume a: "msg_photo msg = None \<and> msg_video msg = None \<and> msg_document msg = Some d \<and>
    \<not> starts_with ''image/'' (case mime_type d of None \<Rightarrow> [] | Some t \<Rightarrow> t)"
  then have "select_media msg = None" by (simp add: select_media_def)
  with a have hc: "handle_content ih ch s msg = (s, Ignored)"
    by (simp add: handle_content_def handle_media_def)
  then show "fst (handle_message ih ch s msg) = s"
    and "snd (handle_message ih ch s msg) \<noteq> Accepted"
    and "\<not> is_duplicate (snd (handle_message ih ch s msg))"
    by (simp_all add: handle_message_def is_duplicate_def)
next
  assume a: "chat_is_group m1 \<and> msg_text m1 = None \<and> msg_photo m1 = None \<and>
    msg_video m1 = Some (Some buf) \<and>
    chat_is_group m2 \<and> msg_text m2 = None \<and> msg_photo m2 = None \<and>
    msg_video m2 = Some (Some buf) \<and> send_ok m2 \<and>
    snd (handle_message ih ch s m1) = Accepted"
  let ?h = "hashMedia ih ch buf Video"
  let ?r = "new_media ih ch m1 Video buf"
  let ?s1 = "fst (handle_message ih ch s m1)"
  let ?s2 = "fst (run ih ch ?s1 between)"
  have sel1: "select_media m1 = Some (Video, Some buf)" using a by (simp add: video_selected)
  have sel2: "select_media m2 = Some (Video, Some buf)" using a by (simp add: video_selected)
  have hm: "handle_message ih ch s m1 = handle_media ih ch s m1"
    using a sel1 by (simp add: media_message_handled)
  have none: "findSimilarMedia (media s) ?h Video similarityThreshold_default = None"
  proof (rule ccontr)
    assume "findSimilarMedia (media s) ?h Video similarityThreshold_default \<noteq> None"
    then have "snd (handle_media ih ch s m1) \<noteq> Accepted"
      using sel1 by (auto simp: handle_media_def after_lookup_def Let_def split: if_splits)
    with hm a show False by simp
  qed
  then have s1: "media ?s1 = media s @ [?r]"
    using hm sel1 by (simp add: handle_media_def after_lookup_def Let_def collections_after_update)
  have "find (\<lambda>m. hash m = ?h) (media s) = None"
    using none by (simp add: findSimilarMedia_def is_perceptual_def)
  then have f1: "find (\<lambda>m. hash m = ?h) (media s @ [?r]) = Some ?r"
    by (simp add: find_snoc new_media_def)
  obtain ys where ys: "media ?s2 = media ?s1 @ ys"
    using run_media_grows by blast
  have "find (\<lambda>m. hash m = ?h) ((media s @ [?r]) @ ys) = Some ?r"
    by (rule find_append_Some[OF f1])
  then have "find (\<lambda>m. hash m = ?h) (media ?s2) = Some ?r"
    by (simp only: ys s1)
  then have found: "findSimilarMedia (media ?s2) ?h Video similarityThreshold_default = Some ?r"
    by (simp add: findSimilarMedia_def is_perceptual_def)
  have step: "handle_message ih ch ?s2 m2 =
     (trackDuplicate ?s2 (from_id (sender m2)) (sender_username (sender m2)) (now m2),
      Duplicate \<lparr>to_chat = chat_id m2, reply_to_message_id = message_id m2,
                 notice_mediaType = Video, posterMention = poster_mention ?r,
                 postDate = timestamp ?r\<rparr>)"
    using a sel2 found by (intro media_message_duplicate) simp_all
  show "snd (handle_message ih ch ?s2 m2) =
        Duplicate \<lparr>to_chat = chat_id m2, reply_to_message_id = message_id m2,
                   notice_mediaType = Video,
                   posterMention = poster_mention ?r,
                   postDate = now m1\<rparr>"
    by (simp add: step) (simp add: new_media_def)
  show "media (fst (handle_message ih ch ?s2 m2)) = media ?s2"
    by (simp add: step collections_after_update)
  show "duplicateTracking (fst (handle_message ih ch ?s2 m2)) =
        duplicateTracking ?s2 @
          [\<lparr>userId = from_id (sender m2), username = sender_username (sender m2),
            timestamp = now m2\<rparr>]"
    by (simp add: step collections_after_update)
qed


theorem non_image_documents_ignored_videos_exact_witness:
  "fst (handle_message sample_imageHash sample_cryptoHash empty_db
          (pdf_message alice (-100) 10 1000)) = empty_db \<and>
   \<not> is_duplicate (snd (handle_message sample_imageHash sample_cryptoHash empty_db
          (pdf_message alice (-100) 10 1000))) \<and>
   snd (handle_message sample_imageHash sample_cryptoHash empty_db
          (video_message alice (-100) 10 1000 video_bytes)) = Accepted \<and>
   snd (handle_message sample_imageHash sample_cryptoHash
          (fst (run sample_imageHash sample_cryptoHash
             (fst (handle_message sample_imageHash sample_cryptoHash empty_db
                (video_message alice (-100) 10 1000 video_bytes)))
             [text_message bob (-100) 11 2000 ''hello'']))
          (video_message bob (-200) 12 3000 video_bytes)) =
     Duplicate \<lparr>to_chat = -200, reply_to_message_id = 12, notice_mediaType = Video,
                posterMention = At ''alice'', postDate = 1000\<rparr>"
  using non_image_documents_ignored_videos_exact
    [where ih = sample_imageHash and ch = sample_cryptoHash and s = empty_db
       and msg = "pdf_message alice (-100) 10 1000"
       and d = "\<lparr>mime_type = Some ''application/pdf'', doc_file = Some pdf_bytes\<rparr>"
       and ?m1.0 = "video_message alice (-100) 10 1000 video_bytes"
       and ?m2.0 = "video_message bob (-200) 12 3000 video_bytes"
       and buf = video_bytes
       and between = "[text_message bob (-100) 11 2000 ''hello'']"]
  by (simp add: sample_defs model_defs)

text \<open>
  C5 as stated fails: a PDF posted twice is ignored both times.
\<close>

theorem pdf_twice_counterexample:
  "run sample_imageHash sample_cryptoHash empty_db
     [pdf_message alice (-100) 10 1000, pdf_message alice (-100) 11 2000] =
   (empty_db, [Ignored, Ignored])"
  by (simp add: sample_defs model_defs)

section \<open>Matching across chats\<close>

lemma scan_media_map:
  assumes "\<And>m. hash (g m) = hash m"
  shows "scan_media h t (map g ms) (map_option g acc) low =
           map_option g (scan_media h t ms acc low)"
proof (induction ms arbitrary: acc low)
  case Nil
  then show ?case by simp
next
  case (Cons m ms)
  have d: "hash_distance h (g m) = hash_distance h m"
    by (simp add: hash_distance_def assms)
  show ?case
    using Cons.IH[of "Some m" "hash_distance h m"] Cons.IH[of acc low]
    by (simp add: Let_def d)
qed

lemma find_map: "find P (map g xs) = map_option g (find (P \<circ> g) xs)"
  by (induction xs) auto

lemma findSimilarMedia_chat:
  "findSimilarMedia (map (\<lambda>m. m\<lparr>chatId := f m\<rparr>) coll) h mt t =
     map_option (\<lambda>m. m\<lparr>chatId := f m\<rparr>) (findSimilarMedia coll h mt t)"
proof (cases "is_perceptual mt")
  case True
  have "scan_media h t (map (\<lambda>m. m\<lparr>chatId := f m\<rparr>) (filter (\<lambda>m. is_perceptual (mediaType m)) coll))
          (map_option (\<lambda>m. m\<lparr>chatId := f m\<rparr>) None) (enat t + 1) =
        map_option (\<lambda>m. m\<lparr>chatId := f m\<rparr>)
          (scan_media h t (filter (\<lambda>m. is_perceptual (mediaType m)) coll) None (enat t + 1))"
    by (rule scan_media_map) simp
  then show ?thesis using True
    by (simp add: findSimilarMedia_def filter_map comp_def)
next
  case False
  then show ?thesis
    by (simp add: findSimilarMedia_def find_map comp_def)
qed

lemma findSimilarMedia_finds:
  assumes "r \<in> set coll"
    and "if is_perceptual mt then is_perceptual (mediaType r) \<and> hash_distance h r \<le> enat t
         else hash r = h"
  shows "\<exists>e \<in> set coll. findSimilarMedia coll h mt t = Some e \<and>
           (if is_perceptual mt
            then is_perceptual (mediaType e) \<and> hash_distance h e \<le> hash_distance h r
            else hash e = h)"
proof (cases "is_perceptual mt")
  case True
  with assms have r: "is_perceptual (mediaType r)" "hash_distance h r \<le> enat t" by simp_all
  have "findSimilarMedia coll h mt t \<noteq> None"
    using findSimilarMedia_perceptual_none[OF True, of coll h t] r assms(1) by blast
  then obtain e where e: "findSimilarMedia coll h mt t = Some e" by blast
  from findSimilarMedia_perceptual_some[OF True e]
  obtain pre post where p: "filter (\<lambda>m. is_perceptual (mediaType m)) coll = pre @ e # post"
    "\<forall>m \<in> set pre. hash_distance h e < hash_distance h m"
    "\<forall>m \<in> set post. hash_distance h e \<le> hash_distance h m" by blast
  have "e \<in> set (filter (\<lambda>m. is_perceptual (mediaType m)) coll)" using p(1) by simp
  then have e_in: "e \<in> set coll" "is_perceptual (mediaType e)" by simp_all
  have "r \<in> set (filter (\<lambda>m. is_perceptual (mediaType m)) coll)" using assms(1) r by simp
  then have "r \<in> set pre \<or> r = e \<or> r \<in> set post" using p(1) by auto
  then have "hash_distance h e \<le> hash_distance h r"
    using p(2,3) by (auto intro: less_imp_le)
  with e e_in True show ?thesis by simp
next
  case False
  with assms have "hash r = h" by simp
  with assms(1) have "find (\<lambda>m. hash m = h) coll \<noteq> None"
    by (auto simp: find_None_iff)
  then obtain e where e: "find (\<lambda>m. hash m = h) coll = Some e" by blast
  then have "e \<in> set coll" "hash e = h"
    by (auto simp: find_Some_iff)
  with e False show ?thesis by (simp add: findSimilarMedia_def)
qed

text \<open>
  C9, amended. Matching is global across chats: \<open>findSimilarMedia\<close> never reads the
  chat of a stored document, so its result is the same whatever chats the documents
  came from. A media post that arrives in a group or supergroup, whose file was
  fetched and whose notice can be sent, is reported as a duplicate as soon as some
  stored document, from whatever chat, has its hash (for a video) or is within the
  threshold (for a photo or an image document). The notice names the document
  \<open>findSimilarMedia\<close> returns: one with the same hash, or one at most as far as the
  stored document in question, which need not be that document itself. A post that
  arrives in a chat that is not a group is not processed.
\<close>

theorem matching_ignores_chat:
  "findSimilarMedia (map (\<lambda>m. m\<lparr>chatId := f m\<rparr>) coll) h mt t =
     map_option (\<lambda>m. m\<lparr>chatId := f m\<rparr>) (findSimilarMedia coll h mt t) \<and>
   (chat_is_group msg \<and> msg_text msg = None \<and> select_media msg = Some (mt, Some buf) \<and>
    send_ok msg \<and> r \<in> set (media s) \<and>
    (if is_perceptual mt
     then is_perceptual (mediaType r) \<and>
          hash_distance (hashMedia ih ch buf mt) r \<le> enat similarityThreshold_default
     else hash r = hashMedia ih ch buf mt) \<longrightarrow>
      (\<exists>e \<in> set (media s).
         findSimilarMedia (media s) (hashMedia ih ch buf mt) mt similarityThreshold_default = Some e \<and>
         (if is_perceptual mt
          then is_perceptual (mediaType e) \<and>
               hash_distance (hashMedia ih ch buf mt) e \<le> hash_distance (hashMedia ih ch buf mt) r
          else hash e = hashMedia ih ch buf mt) \<and>
         snd (handle_message ih ch s msg) =
           Duplicate \<lparr>to_chat = chat_id msg, reply_to_message_id = message_id msg,
                      notice_mediaType = mt, posterMention = poster_mention e,
                      postDate = timestamp e\<rparr>)) \<and>
   (\<not> chat_is_group msg \<and> \<not> is_command (msg_text msg) \<longrightarrow>
      handle_message ih ch s msg = (s, Ignored))"
proof (intro conjI impI)
  show "findSimilarMedia (map (\<lambda>m. m\<lparr>chatId := f m\<rparr>) coll) h mt t =
     map_option (\<lambda>m. m\<lparr>chatId := f m\<rparr>) (findSimilarMedia coll h mt t)"
    by (rule findSimilarMedia_chat)
next
  let ?h = "hashMedia ih ch buf mt"
  assume a: "chat_is_group msg \<and> msg_text msg = None \<and> select_media msg = Some (mt, Some buf) \<and>
    send_ok msg \<and> r \<in> set (media s) \<and>
    (if is_perceptual mt
     then is_perceptual (mediaType r) \<and> hash_distance ?h r \<le> enat similarityThreshold_default
     else hash r = ?h)"
  then have "\<exists>e \<in> set (media s).
      findSimilarMedia (media s) ?h mt similarityThreshold_default = Some e \<and>
      (if is_perceptual mt
       then is_perceptual (mediaType e) \<and> hash_distance ?h e \<le> hash_distance ?h r
       else hash e = ?h)"
    by (intro findSimilarMedia_finds) simp_all
  then obtain e where e: "e \<in> set (media s)"
    "findSimilarMedia (media s) ?h mt similarityThreshold_default = Some e"
    "if is_perceptual mt
       then is_perceptual (mediaType e) \<and> hash_distance ?h e \<le> hash_distance ?h r
       else hash e = ?h" by blast
  have "handle_message ih ch s msg =
     (trackDuplicate s (from_id (sender msg)) (sender_username (sender msg)) (now msg),
      Duplicate \<lparr>to_chat = chat_id msg, reply_to_message_id = message_id msg,
                 notice_mediaType = mt, posterMention = poster_mention e,
                 postDate = timestamp e\<rparr>)"
    using a e(2) by (intro media_message_duplicate) simp_all
  with e show "\<exists>e \<in> set (media s).
         findSimilarMedia (media s) ?h mt similarityThreshold_default = Some e \<and>
         (if is_perceptual mt
          then is_perceptual (mediaType e) \<and> hash_distance ?h e \<le> hash_distance ?h r
          else hash e = ?h) \<and>
         snd (handle_message ih ch s msg) =
           Duplicate \<lparr>to_chat = chat_id msg, reply_to_message_id = message_id msg,
                      notice_mediaType = mt, posterMention = poster_mention e,
                      postDate = timestamp e\<rparr>"
    by auto
next
  assume "\<not> chat_is_group msg \<and> \<not> is_command (msg_text msg)"
  then show "handle_message ih ch s msg = (s, Ignored)"
    by (simp add: handle_message_def)
qed

theorem matching_ignores_chat_witness:
  "chat_is_group (photo_message bob (-200) 11 2000 recompressed_bytes) \<and>
   chatId (photo_of 1 ''alice'' 1000 (-100) hash_zero 10) \<noteq>
     chat_id (photo_message bob (-200) 11 2000 recompressed_bytes) \<and>
   hash_distance (hashMedia sample_imageHash sample_cryptoHash recompressed_bytes Photo)
     (photo_of 1 ''alice'' 1000 (-100) hash_zero 10) \<le> enat similarityThreshold_default \<and>
   snd (handle_message sample_imageHash sample_cryptoHash
          \<lparr>media = [photo_of 1 ''alice'' 1000 (-100) hash_zero 10], userStats = [],
           duplicateTracking = []\<rparr>
          (photo_message bob (-200) 11 2000 recompressed_bytes)) =
     Duplicate \<lparr>to_chat = -200, reply_to_message_id = 11, notice_mediaType = Photo,
                posterMention = At ''alice'', postDate = 1000\<rparr> \<and>
   \<not> chat_is_group ((photo_message bob 2 12 3000 recompressed_bytes)\<lparr>chat_is_group := False\<rparr>) \<and>
   handle_message sample_imageHash sample_cryptoHash
     \<lparr>media = [photo_of 1 ''alice'' 1000 (-100) hash_zero 10], userStats = [],
      duplicateTracking = []\<rparr>
     ((photo_message bob 2 12 3000 recompressed_bytes)\<lparr>chat_is_group := False\<rparr>) =
   (\<lparr>media = [photo_of 1 ''alice'' 1000 (-100) hash_zero 10], userStats = [],
     duplicateTracking = []\<rparr>, Ignored)"
  using matching_ignores_chat
    [where ih = sample_imageHash and ch = sample_cryptoHash
       and s = "\<lparr>media = [photo_of 1 ''alice'' 1000 (-100) hash_zero 10], userStats = [],
           duplicateTracking = []\<rparr>"
       and msg = "photo_message bob (-200) 11 2000 recompressed_bytes"
       and mt = Photo and buf = recompressed_bytes
       and r = "photo_of 1 ''alice'' 1000 (-100) hash_zero 10"
       and coll = "[]" and h = "[]" and t = 0 and f = chatId]
    matching_ignores_chat
    [where ih = sample_imageHash and ch = sample_cryptoHash
       and s = "\<lparr>media = [photo_of 1 ''alice'' 1000 (-100) hash_zero 10], userStats = [],
           duplicateTracking = []\<rparr>"
       and msg = "(photo_message bob 2 12 3000 recompressed_bytes)\<lparr>chat_is_group := False\<rparr>"
       and mt = Photo and buf = recompressed_bytes
       and r = "photo_of 1 ''alice'' 1000 (-100) hash_zero 10"
       and coll = "[]" and h = "[]" and t = 0 and f = chatId]
  by (simp add: sample_defs model_defs)

text \<open>
  C9 as stated fails twice. A photo identical to a stored one arrives in a private chat:
  it is ignored. A photo within the threshold of a stored photo arrives in another
  group: it is reported as a duplicate of a different stored photo, the first one
  at the same distance.
\<close>

theorem other_chat_counterexample:
  "photo_of 1 ''alice'' 1000 (-100) hash_zero 10 \<in>
     set (media \<lparr>media = [photo_of 1 ''alice'' 1000 (-100) hash_zero 10], userStats = [],
                 duplicateTracking = []\<rparr>) \<and>
   hash (photo_of 1 ''alice'' 1000 (-100) hash_zero 10) =
     hashMedia sample_imageHash sample_cryptoHash photo_bytes Photo \<and>
   handle_message sample_imageHash sample_cryptoHash
     \<lparr>media = [photo_of 1 ''alice'' 1000 (-100) hash_zero 10], userStats = [],
      duplicateTracking = []\<rparr>
     ((photo_message bob 2 11 2000 photo_bytes)\<lparr>chat_is_group := False\<rparr>) =
   (\<lparr>media = [photo_of 1 ''alice'' 1000 (-100) hash_zero 10], userStats = [],
     duplicateTracking = []\<rparr>, Ignored) \<and>
   hash_distance (hashMedia sample_imageHash sample_cryptoHash recompressed_bytes Photo)
     (photo_of 3 ''carol'' 1500 (-300) hash_zero 11) \<le> enat similarityThreshold_default \<and>
   snd (handle_message sample_imageHash sample_cryptoHash
     \<lparr>media = [photo_of 1 ''alice'' 1000 (-100) hash_six 10,
                photo_of 3 ''carol'' 1500 (-300) hash_zero 11], userStats = [],
      duplicateTracking = []\<rparr>
     (photo_message bob (-200) 12 2000 recompressed_bytes)) =
   Duplicate \<lparr>to_chat = -200, reply_to_message_id = 12, notice_mediaType = Photo,
              posterMention = At ''alice'', postDate = 1000\<rparr>"
  by (simp add: sample_defs model_defs)

section \<open>The digest of a photo that could not be hashed\<close>







section \<open>The statistics message and the week\<close>

text \<open>
  \<open>generateWeeklyStats\<close> of src/bot.js is a function of the \<^verbatim>\<open>userStats\<close> collection,
  whose counters hold every event since the database was created, and of nothing else:
  no date enters it.
\<close>

lemma generateWeeklyStats_reads_userStats_only:
  "generateWeeklyStats (s\<lparr>media := ms, duplicateTracking := dt\<rparr>) = generateWeeklyStats s"
  by (simp add: generateWeeklyStats_def)

text \<open>
  The variant of \<^verbatim>\<open>src/unnamed/part_001\<close> gives the same message for two databases that
  hold the same documents dated within the last seven days: the documents dated before
  do not enter it.
\<close>

lemma generateWeeklyStats_windowed_filters:
  "generateWeeklyStats_windowed date
      (filter (\<lambda>m. timestamp m \<ge> date - week_ms) mediaColl)
      (filter (\<lambda>m. timestamp m \<ge> date - week_ms) textMessages)
      (filter (\<lambda>d. timestamp d \<ge> date - week_ms) duplicates) getMessageReactions =
   generateWeeklyStats_windowed date mediaColl textMessages duplicates getMessageReactions"
  by (simp add: generateWeeklyStats_windowed_def)

lemma generateWeeklyStats_windowed_only_window:
  assumes "filter (\<lambda>m. timestamp m \<ge> date - week_ms) media1 =
           filter (\<lambda>m. timestamp m \<ge> date - week_ms) media2"
    and "filter (\<lambda>m. timestamp m \<ge> date - week_ms) texts1 =
         filter (\<lambda>m. timestamp m \<ge> date - week_ms) texts2"
    and "filter (\<lambda>d. timestamp d \<ge> date - week_ms) duplicates1 =
         filter (\<lambda>d. timestamp d \<ge> date - week_ms) duplicates2"
  shows "generateWeeklyStats_windowed date media1 texts1 duplicates1 getMessageReactions =
         generateWeeklyStats_windowed date media2 texts2 duplicates2 getMessageReactions"
  using assms by (simp add: generateWeeklyStats_windowed_def)

text \<open>
  C7 at the failing input, on src/bot.js. A text message, a photo and a duplicate of
  the photo are handled; thirty days later \<^verbatim>\<open>/stats\<close> is sent. The message lists
  both senders as contributors, one photo, one text message and one duplicate offender,
  though no event lies within the week before. On the same documents the variant of
  \<^verbatim>\<open>src/unnamed/part_001\<close> reports nothing.
\<close>

theorem weekly_stats_count_old_events:
  "run sample_imageHash sample_cryptoHash empty_db
     [text_message bob (-100) 9 500 ''hello'',
      photo_message alice (-100) 10 1000 photo_bytes,
      photo_message bob (-100) 11 2000 recompressed_bytes,
      text_message carol (-100) 12 (2000 + thirty_days) ''/stats''] =
   (\<lparr>media = [photo_of 1 ''alice'' 1000 (-100) hash_zero 10],
     userStats =
       [\<lparr>userId = 2, username = ''Bob Builder'', photoCount = Some 0,
          videoCount = Some 0, documentCount = Some 0, textCount = Some 1,
          duplicatesPosted = Some 1, totalMessages = Some 1,
          firstSeen = Some 500, lastActive = 2000\<rparr>,
        \<lparr>userId = 1, username = ''alice'', photoCount = Some 1,
          videoCount = Some 0, documentCount = Some 0, textCount = Some 0,
          duplicatesPosted = Some 0, totalMessages = Some 1,
          firstSeen = Some 1000, lastActive = 1000\<rparr>],
     duplicateTracking = [duplicate_of 2 ''Bob Builder'' 2000]\<rparr>,
    [TextCounted, Accepted,
     Duplicate \<lparr>to_chat = -100, reply_to_message_id = 11, notice_mediaType = Photo,
                posterMention = At ''alice'', postDate = 1000\<rparr>,
     StatsReply
       (Some
         \<lparr>topContributors = [(Name ''Bob Builder'', Some 1), (Name ''alice'', Some 1)],
          totalPhotos = 1, totalVideos = 0, totalDocs = 0, totalTexts = 1,
          duplicateOffenders = [(Name ''Bob Builder'', Some 1)]\<rparr>)]) \<and>
   generateWeeklyStats_windowed (2000 + thirty_days)
     [photo_of 1 ''alice'' 1000 (-100) hash_zero 10]
     [text_of 2 ''Bob Builder'' 500 (-100) 9]
     [duplicate_of 2 ''Bob Builder'' 2000]
     (\<lambda>chat mid. 0) =
   \<lparr>week_topContributors = [], week_topReactor = None, week_totalPhotos = 0,
    week_totalVideos = 0, week_totalDocs = 0, week_totalTexts = 0,
    week_duplicateOffenders = []\<rparr>"
  by (simp add: report_defs sample_defs model_defs carol_def)

section \<open>The same new media from two senders\<close>

lemma differing_positions_same: "differing_positions xs xs = 0"
  by (induction xs) (simp_all add: differing_positions_def)

lemma hash_distance_same:
  "h \<noteq> [] \<Longrightarrow> hash r = h \<Longrightarrow> hash_distance h r = 0"
  by (simp add: hash_distance_def calculateHashDistance_eq differing_positions_same
      zero_enat_def)

lemma findSimilarMedia_just_stored:
  assumes none: "findSimilarMedia coll h mt t = None"
    and r: "hash r = h" "mediaType r = mt" "is_perceptual mt \<longrightarrow> h \<noteq> []"
  shows "findSimilarMedia (coll @ [r]) h mt t = Some r"
proof (cases "is_perceptual mt")
  case False
  then show ?thesis using none r by (simp add: findSimilarMedia_def find_snoc)
next
  case True
  then have d: "hash_distance h r = 0" using r by (simp add: hash_distance_same)
  have "\<exists>e \<in> set (coll @ [r]). findSimilarMedia (coll @ [r]) h mt t = Some e \<and>
           (if is_perceptual mt
            then is_perceptual (mediaType e) \<and> hash_distance h e \<le> hash_distance h r
            else hash e = h)"
    by (rule findSimilarMedia_finds) (use True r d in \<open>simp_all add: zero_enat_def\<close>)
  then obtain e where e: "e \<in> set (coll @ [r])"
    "findSimilarMedia (coll @ [r]) h mt t = Some e"
    "is_perceptual (mediaType e)" "hash_distance h e \<le> hash_distance h r"
    using True by auto
  have "e \<notin> set coll"
  proof
    assume "e \<in> set coll"
    moreover have "hash_distance h e \<le> enat t"
    proof -
      have "hash_distance h e \<le> enat 0" using e(4) d by (simp add: zero_enat_def)
      also have "enat 0 \<le> enat t" by simp
      finally show ?thesis .
    qed
    ultimately show False
      using findSimilarMedia_perceptual_none[OF True, of coll h t] none e(3) by blast
  qed
  with e(1) have "e = r" by simp
  with e(2) show ?thesis by simp
qed

text \<open>
  C8, amended. Two posts of the same new media (the same bytes, nothing similar stored)
  arrive in groups, and the notice to the second can be sent. Handled one after the
  other, the first is accepted and the second is reported as a duplicate of it: exactly
  one document is added to the \<^verbatim>\<open>media\<close> collection and exactly one to
  \<^verbatim>\<open>duplicateTracking\<close>. The lookup and the insert are
  not atomic: when both lookups run before either activation writes, both posts are
  accepted, two documents are added to the \<^verbatim>\<open>media\<close> collection and no duplicate is
  recorded.
\<close>

theorem one_record_in_sequence_two_when_interleaved:
  "chat_is_group m1 \<and> msg_text m1 = None \<and> select_media m1 = Some (mt, Some buf) \<and>
   chat_is_group m2 \<and> msg_text m2 = None \<and> select_media m2 = Some (mt, Some buf) \<and>
   send_ok m2 \<and> (is_perceptual mt \<longrightarrow> hashMedia ih ch buf mt \<noteq> []) \<and>
   findSimilarMedia (media s) (hashMedia ih ch buf mt) mt similarityThreshold_default = None \<longrightarrow>
     snd (run ih ch s [m1, m2]) =
       [Accepted,
        Duplicate \<lparr>to_chat = chat_id m2, reply_to_message_id = message_id m2,
                   notice_mediaType = mt,
                   posterMention = poster_mention (new_media ih ch m1 mt buf),
                   postDate = now m1\<rparr>] \<and>
     media (fst (run ih ch s [m1, m2])) = media s @ [new_media ih ch m1 mt buf] \<and>
     duplicateTracking (fst (run ih ch s [m1, m2])) =
       duplicateTracking s @
         [\<lparr>userId = from_id (sender m2), username = sender_username (sender m2),
           timestamp = now m2\<rparr>] \<and>
     snd (lookups_first ih ch s m1 mt buf m2 mt buf) = [Accepted, Accepted] \<and>
     media (fst (lookups_first ih ch s m1 mt buf m2 mt buf)) =
       media s @ [new_media ih ch m1 mt buf, new_media ih ch m2 mt buf] \<and>
     duplicateTracking (fst (lookups_first ih ch s m1 mt buf m2 mt buf)) = duplicateTracking s"
proof (intro impI)
  let ?h = "hashMedia ih ch buf mt"
  let ?r1 = "new_media ih ch m1 mt buf"
  assume a: "chat_is_group m1 \<and> msg_text m1 = None \<and> select_media m1 = Some (mt, Some buf) \<and>
   chat_is_group m2 \<and> msg_text m2 = None \<and> select_media m2 = Some (mt, Some buf) \<and>
   send_ok m2 \<and> (is_perceptual mt \<longrightarrow> ?h \<noteq> []) \<and>
   findSimilarMedia (media s) ?h mt similarityThreshold_default = None"
  have h1: "handle_message ih ch s m1 =
      (updateUserStatistics (s\<lparr>media := media s @ [?r1]\<rparr>)
         (from_id (sender m1)) (sender_username (sender m1)) mt (now m1), Accepted)"
    using a media_message_handled[of m1 mt buf ih ch s]
    by (simp add: handle_media_def after_lookup_def Let_def)
  let ?s1 = "fst (handle_message ih ch s m1)"
  have m1: "media ?s1 = media s @ [?r1]"
    by (simp add: h1 collections_after_update)
  have "findSimilarMedia (media s @ [?r1]) ?h mt similarityThreshold_default = Some ?r1"
    using a by (intro findSimilarMedia_just_stored) (simp_all add: new_media_def)
  then have found: "findSimilarMedia (media ?s1) ?h mt similarityThreshold_default = Some ?r1"
    by (simp only: m1)
  have h2: "handle_message ih ch ?s1 m2 =
     (trackDuplicate ?s1 (from_id (sender m2)) (sender_username (sender m2)) (now m2),
      Duplicate \<lparr>to_chat = chat_id m2, reply_to_message_id = message_id m2,
                 notice_mediaType = mt, posterMention = poster_mention ?r1,
                 postDate = timestamp ?r1\<rparr>)"
    using a found by (intro media_message_duplicate) simp_all
  have ts: "timestamp ?r1 = now m1" by (simp add: new_media_def)
  have dt1: "duplicateTracking ?s1 = duplicateTracking s"
    by (simp add: h1 collections_after_update)
  have seq: "run ih ch s [m1, m2] =
      (fst (handle_message ih ch ?s1 m2),
       [snd (handle_message ih ch s m1), snd (handle_message ih ch ?s1 m2)])"
    by (simp add: split_beta)
  have il: "lookups_first ih ch s m1 mt buf m2 mt buf =
      (updateUserStatistics
         ((updateUserStatistics (s\<lparr>media := media s @ [?r1]\<rparr>)
            (from_id (sender m1)) (sender_username (sender m1)) mt (now m1))
          \<lparr>media := media (updateUserStatistics (s\<lparr>media := media s @ [?r1]\<rparr>)
            (from_id (sender m1)) (sender_username (sender m1)) mt (now m1)) @
              [new_media ih ch m2 mt buf]\<rparr>)
         (from_id (sender m2)) (sender_username (sender m2)) mt (now m2),
       [Accepted, Accepted])"
    using a by (simp add: lookups_first_def after_lookup_def Let_def)
  show "snd (run ih ch s [m1, m2]) =
       [Accepted,
        Duplicate \<lparr>to_chat = chat_id m2, reply_to_message_id = message_id m2,
                   notice_mediaType = mt,
                   posterMention = poster_mention ?r1,
                   postDate = now m1\<rparr>] \<and>
     media (fst (run ih ch s [m1, m2])) = media s @ [?r1] \<and>
     duplicateTracking (fst (run ih ch s [m1, m2])) =
       duplicateTracking s @
         [\<lparr>userId = from_id (sender m2), username = sender_username (sender m2),
           timestamp = now m2\<rparr>] \<and>
     snd (lookups_first ih ch s m1 mt buf m2 mt buf) = [Accepted, Accepted] \<and>
     media (fst (lookups_first ih ch s m1 mt buf m2 mt buf)) =
       media s @ [?r1, new_media ih ch m2 mt buf] \<and>
     duplicateTracking (fst (lookups_first ih ch s m1 mt buf m2 mt buf)) = duplicateTracking s"
    unfolding seq il
    by (simp add: h2 ts collections_after_update m1 dt1) (simp add: h1)
qed

theorem one_record_in_sequence_two_when_interleaved_witness:
  "run sample_imageHash sample_cryptoHash empty_db
     [photo_message alice (-100) 10 1000 photo_bytes,
      photo_message bob (-100) 11 1001 photo_bytes] =
   (\<lparr>media = [photo_of 1 ''alice'' 1000 (-100) hash_zero 10],
     userStats =
       [\<lparr>userId = 1, username = ''alice'', photoCount = Some 1,
          videoCount = Some 0, documentCount = Some 0, textCount = Some 0,
          duplicatesPosted = Some 0, totalMessages = Some 1,
          firstSeen = Some 1000, lastActive = 1000\<rparr>,
        \<lparr>userId = 2, username = ''Bob Builder'', photoCount = None,
          videoCount = None, documentCount = None, textCount = None,
          duplicatesPosted = Some 1, totalMessages = None,
          firstSeen = None, lastActive = 1001\<rparr>],
     duplicateTracking = [\<lparr>userId = 2, username = ''Bob Builder'', timestamp = 1001\<rparr>]\<rparr>,
    [Accepted,
     Duplicate \<lparr>to_chat = -100, reply_to_message_id = 11, notice_mediaType = Photo,
                posterMention = At ''alice'', postDate = 1000\<rparr>])"
  using one_record_in_sequence_two_when_interleaved
    [where ih = sample_imageHash and ch = sample_cryptoHash and s = empty_db
       and ?m1.0 = "photo_message alice (-100) 10 1000 photo_bytes"
       and ?m2.0 = "photo_message bob (-100) 11 1001 photo_bytes"
       and mt = Photo and buf = photo_bytes]
  by (simp add: sample_defs model_defs)

text \<open>
  C8 as stated fails: the same photo from two senders, both lookups before the first
  insert.
\<close>

theorem lookups_first_counterexample:
  "lookups_first sample_imageHash sample_cryptoHash empty_db
     (photo_message alice (-100) 10 1000 photo_bytes) Photo photo_bytes
     (photo_message bob (-100) 11 1001 photo_bytes) Photo photo_bytes =
   (\<lparr>media = [photo_of 1 ''alice'' 1000 (-100) hash_zero 10,
               photo_of 2 ''Bob Builder'' 1001 (-100) hash_zero 11],
     userStats =
       [\<lparr>userId = 1, username = ''alice'', photoCount = Some 1,
          videoCount = Some 0, documentCount = Some 0, textCount = Some 0,
          duplicatesPosted = Some 0, totalMessages = Some 1,
          firstSeen = Some 1000, lastActive = 1000\<rparr>,
        \<lparr>userId = 2, username = ''Bob Builder'', photoCount = Some 1,
          videoCount = Some 0, documentCount = Some 0, textCount = Some 0,
          duplicatesPosted = Some 0, totalMessages = Some 1,
          firstSeen = Some 1001, lastActive = 1001\<rparr>],
     duplicateTracking = []\<rparr>,
    [Accepted, Accepted])"
  by (simp add: sample_defs model_defs lookups_first_def)

section \<open>The order of the dates in the collection\<close>

text \<open>
  The handler stores a new document at the end of the \<^verbatim>\<open>media\<close> collection with the
  date of its handling. As long as these dates never go back, the collection stays in
  the order of its dates, and then the first of the closest documents is one of the
  earliest date.
\<close>

lemma handle_message_keeps_date_order:
  assumes "sorted_wrt (\<lambda>a b. timestamp a \<le> timestamp b) (media s)"
    and "\<forall>m \<in> set (media s). timestamp m \<le> now msg"
  shows "sorted_wrt (\<lambda>a b. timestamp a \<le> timestamp b) (media (fst (handle_message ih ch s msg))) \<and>
         (\<forall>m \<in> set (media (fst (handle_message ih ch s msg))). timestamp m \<le> now msg)"
  using assms
  by (cases rule: handle_message_cases[of ih ch s msg])
     (auto simp: collections_after_update sorted_wrt_append new_media_def)

lemma run_keeps_date_order:
  assumes "sorted_wrt (\<lambda>a b. timestamp a \<le> timestamp b) (media s)"
    and "\<forall>m \<in> set (media s). \<forall>msg \<in> set msgs. timestamp m \<le> now msg"
    and "sorted (map now msgs)"
  shows "sorted_wrt (\<lambda>a b. timestamp a \<le> timestamp b) (media (fst (run ih ch s msgs)))"
  using assms
proof (induction msgs arbitrary: s)
  case Nil
  then show ?case by simp
next
  case (Cons msg msgs)
  let ?s1 = "fst (handle_message ih ch s msg)"
  have step: "sorted_wrt (\<lambda>a b. timestamp a \<le> timestamp b) (media ?s1) \<and>
         (\<forall>m \<in> set (media ?s1). timestamp m \<le> now msg)"
    using Cons.prems by (intro handle_message_keeps_date_order) simp_all
  have later: "\<forall>x \<in> set msgs. now msg \<le> now x"
    using Cons.prems(3) by simp
  have "\<forall>m \<in> set (media ?s1). \<forall>x \<in> set msgs. timestamp m \<le> now x"
    using step later by (meson order_trans)
  moreover have "sorted (map now msgs)" using Cons.prems(3) by simp
  ultimately have "sorted_wrt (\<lambda>a b. timestamp a \<le> timestamp b) (media (fst (run ih ch ?s1 msgs)))"
    using step by (intro Cons.IH) simp_all
  then show ?case unfolding run_Cons fst_conv .
qed

end
